theory Spec2Isabelle
  imports
    Main
    "HOL-Library.Signed_Division"
    "HOL-Library.Multiset"
    "HOL-Library.Monad_Syntax"
begin

unbundle bit_operations_syntax

section \<open>Conventions of the embedding\<close>

text \<open>
  The development embeds the C sources \<^verbatim>\<open>sigv4.c\<close> and \<^verbatim>\<open>sigv4_quicksort.c\<close>.

  \<^item> A byte is a \<^typ>\<open>char\<close>, a byte string a \<^typ>\<open>string\<close>; \<open>of_char\<close> reads a byte
    as a number in \<open>0..255\<close>.
  \<^item> A pointer with its length field (\<^verbatim>\<open>pData\<close>/\<^verbatim>\<open>dataLen\<close>, \<^verbatim>\<open>pDate\<close>/\<^verbatim>\<open>dateLen\<close>, ...)
    is one \<^typ>\<open>string option\<close>: \<open>None\<close> is the \<^verbatim>\<open>NULL\<close> pointer, \<open>Some s\<close> points to
    the \<open>length s\<close> bytes \<open>s\<close>, and the length field is \<open>length s\<close>.
  \<^item> An output parameter is an argument holding the old contents and a component of the
    result holding the new contents.
  \<^item> \<^verbatim>\<open>assert\<close> is not a branch of the code (it is compiled out under \<^verbatim>\<open>NDEBUG\<close>);
    logging macros write nothing the program reads.
  \<^item> \<^verbatim>\<open>int32_t\<close> values are \<^typ>\<open>int\<close> where the code cannot overflow them, and
    C's truncating \<^verbatim>\<open>/\<close> and \<^verbatim>\<open>%\<close> are \<open>sdiv\<close> and \<open>smod\<close>.
\<close>

datatype SigV4Status_t =
    SigV4Success
  | SigV4InvalidParameter
  | SigV4InsufficientMemory
  | SigV4ISOFormattingError
  | SigV4MaxHeaderPairCountExceeded
  | SigV4MaxQueryPairCountExceeded
  | SigV4HashError

section \<open>Date engine\<close>










definition SIGV4_ISO_STRING_LEN :: nat where
  "SIGV4_ISO_STRING_LEN = 16"













section \<open>Canonical URI encoder\<close>

text \<open>\<^verbatim>\<open>size_t\<close> is taken as 64 bits wide.\<close>

definition SIZE_MAX :: nat where
  "SIZE_MAX = 18446744073709551615"

text \<open>The value of a plain \<^verbatim>\<open>char\<close> after promotion to \<^verbatim>\<open>int\<close>. Whether plain \<^verbatim>\<open>char\<close> is
  signed is implementation-defined, so it is an argument (\<open>char_signed\<close>) of the functions
  that depend on it.\<close>

definition char_value :: "bool \<Rightarrow> char \<Rightarrow> int" where
  "char_value char_signed c =
     (if char_signed \<and> (128::nat) \<le> of_char c then of_char c - 256 else of_char c)"

text \<open>\<^verbatim>\<open>isalnum\<close> of the C locale: the ASCII letters and digits. (With a signed \<^verbatim>\<open>char\<close>, a
  byte above 127 reaches \<^verbatim>\<open>isalnum\<close> as a negative number, where the C standard leaves it
  undefined; it is not an ASCII letter or digit.)\<close>

definition isalnum :: "char \<Rightarrow> bool" where
  "isalnum c =
     (((48::nat) \<le> of_char c \<and> of_char c \<le> (57::nat)) \<or>
      ((65::nat) \<le> of_char c \<and> of_char c \<le> (90::nat)) \<or>
      ((97::nat) \<le> of_char c \<and> of_char c \<le> (122::nat)))"

definition toUpperHexChar :: "int \<Rightarrow> char" where
  "toUpperHexChar v = (if v < 10 then char_of (48 + v) else char_of ((65 + v) - 10))"

text \<open>The body of the loop of \<^verbatim>\<open>encodeURI\<close> for the byte \<open>c\<close> at \<open>pUriLoc\<close>, entered with
  \<open>returnStatus = SigV4Success\<close>: the new status and the bytes written to \<open>pCanonicalURI\<close>
  so far (\<open>out\<close>, so that \<open>bytesConsumed = length out\<close>). The branch for an unreserved byte
  stores the byte before \<open>bytesConsumed\<close> is compared with the capacity: \<open>out\<close> holds every
  byte the source stores, also one stored behind \<open>canonicalURILen\<close> bytes.
  \<^verbatim>\<open>*pUriLoc >> 4\<close> and \<^verbatim>\<open>*pUriLoc & 0x0F\<close> on the promoted value are \<open>div 16\<close> (an arithmetic
  shift) and \<open>mod 16\<close>.\<close>

definition encodeURI_step ::
  "bool \<Rightarrow> bool \<Rightarrow> bool \<Rightarrow> nat \<Rightarrow> char \<Rightarrow> string \<Rightarrow> SigV4Status_t \<times> string" where
  "encodeURI_step char_signed encodeSlash doubleEncodeEquals canonicalURILen c out =
     (let (returnStatus, out) =
            (if doubleEncodeEquals \<and> c = CHR ''='' then
               (if length out > SIZE_MAX - 5 \<or> length out + 5 > canonicalURILen
                then (SigV4InsufficientMemory, out)
                else (SigV4Success, out @ ''%253D''))
             else if isalnum c \<or> c = CHR ''-'' \<or> c = CHR ''_'' \<or> c = CHR ''.'' \<or>
                     c = CHR ''~'' \<or> (c = CHR ''/'' \<and> \<not> encodeSlash) then
               (SigV4Success, out @ [c])
             else
               (if length out > SIZE_MAX - 3 \<or> length out + 3 > canonicalURILen
                then (SigV4InsufficientMemory, out)
                else (SigV4Success,
                      out @ [CHR ''%'',
                             toUpperHexChar (char_value char_signed c div 16),
                             toUpperHexChar (char_value char_signed c mod 16)])))
      in (if length out > canonicalURILen then SigV4InsufficientMemory else returnStatus, out))"

text \<open>The loop of \<^verbatim>\<open>encodeURI\<close>. The list argument is the input from \<open>pUriLoc\<close> to its end
  (\<open>uriLen\<close> is its length at the start). The loop condition \<^verbatim>\<open>i++ < uriLen && *pUriLoc\<close> ends
  the loop at the end of the input and at a zero byte; the \<^verbatim>\<open>break\<close> ends it after a
  failure.\<close>

fun encodeURI_loop ::
  "bool \<Rightarrow> bool \<Rightarrow> bool \<Rightarrow> nat \<Rightarrow> string \<Rightarrow> SigV4Status_t \<Rightarrow> string \<Rightarrow> SigV4Status_t \<times> string" where
  "encodeURI_loop char_signed encodeSlash doubleEncodeEquals canonicalURILen []
       returnStatus out = (returnStatus, out)"
| "encodeURI_loop char_signed encodeSlash doubleEncodeEquals canonicalURILen (c # pUriLoc)
       returnStatus out =
     (if c = CHR 0x00 then (returnStatus, out)
      else if returnStatus \<noteq> SigV4Success then (returnStatus, out)
      else
        (let (returnStatus, out) =
               encodeURI_step char_signed encodeSlash doubleEncodeEquals canonicalURILen c out
         in encodeURI_loop char_signed encodeSlash doubleEncodeEquals canonicalURILen pUriLoc
              returnStatus out))"

text \<open>\<^verbatim>\<open>encodeURI\<close>: the status, and the bytes written to \<open>pCanonicalURI\<close>; their number is
  the value left in \<open>*canonicalURILen\<close>.\<close>

definition encodeURI ::
  "bool \<Rightarrow> string \<Rightarrow> nat \<Rightarrow> bool \<Rightarrow> bool \<Rightarrow> SigV4Status_t \<times> string" where
  "encodeURI char_signed pUri canonicalURILen encodeSlash doubleEncodeEquals =
     encodeURI_loop char_signed encodeSlash doubleEncodeEquals canonicalURILen pUri
       SigV4Success []"

text \<open>What one iteration of the loop stores for the byte \<open>c\<close> when the capacity allows it.\<close>

definition encodeByte :: "bool \<Rightarrow> bool \<Rightarrow> bool \<Rightarrow> char \<Rightarrow> string" where
  "encodeByte char_signed encodeSlash doubleEncodeEquals c =
     (if doubleEncodeEquals \<and> c = CHR ''='' then ''%253D''
      else if isalnum c \<or> c = CHR ''-'' \<or> c = CHR ''_'' \<or> c = CHR ''.'' \<or>
              c = CHR ''~'' \<or> (c = CHR ''/'' \<and> \<not> encodeSlash) then [c]
      else [CHR ''%'',
            toUpperHexChar (char_value char_signed c div 16),
            toUpperHexChar (char_value char_signed c mod 16)])"

text \<open>The bytes of the input that the loop reaches: those before the first zero byte.\<close>

definition beforeNul :: "string \<Rightarrow> string" where
  "beforeNul pUri = takeWhile (\<lambda>c. c \<noteq> CHR 0x00) pUri"

section \<open>Processing buffer and key-value records\<close>

text \<open>\<^verbatim>\<open>SigV4KeyValuePair_t\<close>: two \<^verbatim>\<open>SigV4String_t\<close>, each a pointer with its length, that is a
  \<^typ>\<open>string option\<close>. The field \<^verbatim>\<open>value\<close> of the source is \<open>val\<close> here.\<close>

record SigV4KeyValuePair_t =
  key :: "string option"
  val :: "string option"

text \<open>The bytes and the \<^verbatim>\<open>dataLen\<close> of a \<^verbatim>\<open>SigV4String_t\<close>.\<close>

definition pData :: "string option \<Rightarrow> string" where
  "pData s = (case s of None \<Rightarrow> [] | Some bs \<Rightarrow> bs)"

definition dataLen :: "string option \<Rightarrow> nat" where
  "dataLen s = length (pData s)"

definition emptySigV4String :: "string option \<Rightarrow> bool" where
  "emptySigV4String pInput = (pInput = None \<or> dataLen pInput = 0)"

text \<open>Modelled from the spec: \<^verbatim>\<open>CanonicalContext_t\<close>, declared in the absent
  \<^verbatim>\<open>sigv4_internal.h\<close>: the processing buffer with its cursor and remaining length, and the
  array of query records. \<open>buf\<close> holds the bytes of \<open>pBufProcessing\<close> before the cursor
  \<open>pBufCur\<close>, so \<open>pBufCur - pBufProcessing = length buf\<close>; the bytes behind the cursor are
  scratch space. The array \<open>pQueryLoc\<close> is a function from indices: its entries start out
  undetermined, and a store at an index from \<open>SIGV4_MAX_QUERY_PAIR_COUNT\<close> on, which is
  outside the C array, is recorded like any other.\<close>

record CanonicalContext_t =
  buf :: string
  bufRemaining :: nat
  pQueryLoc :: "nat \<Rightarrow> SigV4KeyValuePair_t"

text \<open>\<^verbatim>\<open>size_t\<close> subtraction wraps around.\<close>

definition size_sub :: "nat \<Rightarrow> nat \<Rightarrow> nat" where
  "size_sub a b = (if b \<le> a then a - b else a + (SIZE_MAX + 1) - b)"

section \<open>Canonical query encoder\<close>

text \<open>The local variables of \<^verbatim>\<open>setQueryStringFieldsAndValues\<close> that live across iterations,
  with the record array
  (each under the prefix \<open>qs_\<close>).\<close>

record query_scan =
  qs_numberOfParameters :: nat
  qs_startOfFieldOrValue :: nat
  qs_fieldHasValue :: bool
  qs_pQueryLoc :: "nat \<Rightarrow> SigV4KeyValuePair_t"

text \<open>\<open>&pQuery[ start ]\<close> with the length \<open>len\<close>.\<close>

definition slice :: "string \<Rightarrow> nat \<Rightarrow> nat \<Rightarrow> string option" where
  "slice pQuery start len = Some (take len (drop start pQuery))"

text \<open>One iteration of the \<^verbatim>\<open>for\<close> loop of \<^verbatim>\<open>setQueryStringFieldsAndValues\<close>, at index \<open>i\<close>.
  \<open>i2\<close> is \<open>i\<close> after the adjustment \<^verbatim>\<open>if( i == queryLen - 1U ) i++\<close>; \<open>i\<close> never precedes
  \<open>startOfFieldOrValue\<close>, so the subtractions do not wrap.\<close>

definition setQuery_step :: "string \<Rightarrow> nat \<Rightarrow> query_scan \<Rightarrow> query_scan" where
  "setQuery_step pQuery i s =
     (let n = qs_numberOfParameters s; start = qs_startOfFieldOrValue s; loc = qs_pQueryLoc s in
      if pQuery ! i = CHR ''='' \<and> \<not> qs_fieldHasValue s then
        s\<lparr>qs_pQueryLoc := loc(n := (loc n)\<lparr>key := slice pQuery start (i - start)\<rparr>),
          qs_startOfFieldOrValue := i + 1,
          qs_fieldHasValue := True\<rparr>
      else if i = length pQuery - 1 \<or> (pQuery ! i = CHR ''&'' \<and> i \<noteq> 0) then
        (let i2 = (if i = length pQuery - 1 then i + 1 else i) in
         if i2 - start = 0 then s
         else if \<not> qs_fieldHasValue s then
           s\<lparr>qs_pQueryLoc := loc(n := \<lparr>key = slice pQuery start (i2 - start), val = None\<rparr>),
             qs_startOfFieldOrValue := i2 + 1,
             qs_numberOfParameters := n + 1\<rparr>
         else
           s\<lparr>qs_pQueryLoc := loc(n := (loc n)\<lparr>val := slice pQuery start (i2 - start)\<rparr>),
             qs_fieldHasValue := False,
             qs_startOfFieldOrValue := i2 + 1,
             qs_numberOfParameters := n + 1\<rparr>)
      else s)"

text \<open>The loop, from index \<open>i\<close> on; it is left at the end of the query and by the
  \<^verbatim>\<open>break\<close> once more than \<open>SIGV4_MAX_QUERY_PAIR_COUNT\<close> records are counted. After the
  adjusted last iteration the source's \<open>i\<close> is \<open>queryLen + 1\<close> and the model's \<open>queryLen\<close>:
  the loop ends either way.\<close>

function setQuery_loop :: "nat \<Rightarrow> string \<Rightarrow> nat \<Rightarrow> query_scan \<Rightarrow> query_scan" where
  "setQuery_loop SIGV4_MAX_QUERY_PAIR_COUNT pQuery i s =
     (if i < length pQuery then
        (let s' = setQuery_step pQuery i s in
         if qs_numberOfParameters s' > SIGV4_MAX_QUERY_PAIR_COUNT then s'
         else setQuery_loop SIGV4_MAX_QUERY_PAIR_COUNT pQuery (Suc i) s')
      else s)"
  by pat_completeness auto
termination
  by (relation "measure (\<lambda>(m, q, i, s). length q - i)") auto

text \<open>\<^verbatim>\<open>setQueryStringFieldsAndValues\<close>: the number of parameters and the context with the
  records stored. \<open>SIGV4_MAX_QUERY_PAIR_COUNT\<close> is a macro of the absent configuration header
  and an argument here.\<close>

definition setQueryStringFieldsAndValues ::
  "nat \<Rightarrow> string \<Rightarrow> CanonicalContext_t \<Rightarrow> nat \<times> CanonicalContext_t" where
  "setQueryStringFieldsAndValues SIGV4_MAX_QUERY_PAIR_COUNT pQuery pCanonicalRequest =
     (let s = setQuery_loop SIGV4_MAX_QUERY_PAIR_COUNT pQuery 0
                \<lparr>qs_numberOfParameters = 0, qs_startOfFieldOrValue = 0, qs_fieldHasValue = False,
                 qs_pQueryLoc = pQueryLoc pCanonicalRequest\<rparr>
      in (qs_numberOfParameters s, pCanonicalRequest\<lparr>pQueryLoc := qs_pQueryLoc s\<rparr>))"

text \<open>The C library's \<^verbatim>\<open>strncmp\<close>: at most \<open>n\<close> bytes are compared as \<^verbatim>\<open>unsigned char\<close>, and
  the comparison ends behind a zero byte. The C standard fixes the sign of the result only;
  the difference of the two bytes is returned here. Every call of the source passes an \<open>n\<close>
  that is at most the length of both strings; the end of a list counts as a zero byte.\<close>

fun strncmp :: "string \<Rightarrow> string \<Rightarrow> nat \<Rightarrow> int" where
  "strncmp [] s2 n =
     (if n = 0 then 0
      else case s2 of [] \<Rightarrow> 0 | b # s2' \<Rightarrow> - int (of_char b))"
| "strncmp (a # s1) s2 n =
     (if n = 0 then 0
      else case s2 of
             [] \<Rightarrow> int (of_char a)
           | b # s2' \<Rightarrow>
               if a \<noteq> b then int (of_char a) - int (of_char b)
               else if a = CHR 0x00 then 0
               else strncmp s1 s2' (n - 1))"

definition cmpQueryFieldValue :: "SigV4KeyValuePair_t \<Rightarrow> SigV4KeyValuePair_t \<Rightarrow> int" where
  "cmpQueryFieldValue pFirst pSecond =
     (let lenSmall = (if dataLen (key pFirst) < dataLen (key pSecond)
                      then dataLen (key pFirst) else dataLen (key pSecond));
          compResult = strncmp (pData (key pFirst)) (pData (key pSecond)) lenSmall;
          compResult =
            (if compResult = 0 then
               (if dataLen (key pFirst) = dataLen (key pSecond) then
                  (let lenSmall = (if dataLen (val pFirst) < dataLen (val pSecond)
                                   then dataLen (val pFirst) else dataLen (val pSecond))
                   in strncmp (pData (val pFirst)) (pData (val pSecond)) lenSmall)
                else (if dataLen (key pFirst) < dataLen (key pSecond) then - 1 else 1))
             else compResult);
          compResult =
            (if compResult = 0 \<and> dataLen (val pFirst) \<noteq> dataLen (val pSecond) then
               (if dataLen (val pFirst) < dataLen (val pSecond) then - 1 else 1)
             else compResult)
      in compResult)"

text \<open>The body of the loop of \<^verbatim>\<open>writeCanonicalQueryParameters\<close> for one record \<open>r\<close>;
  \<open>isLast\<close> says whether \<open>numberOfParameters = i + 1\<close>. The result is the status, the bytes
  stored from \<open>pBufCur\<close> on, and \<open>remainingLen\<close>.\<close>

definition writeQueryParameter ::
  "bool \<Rightarrow> SigV4KeyValuePair_t \<Rightarrow> bool \<Rightarrow> nat \<Rightarrow> SigV4Status_t \<times> string \<times> nat" where
  "writeQueryParameter char_signed r isLast remainingLen =
     (let (returnStatus, k) = encodeURI char_signed (pData (key r)) remainingLen True False;
          (returnStatus, out, remainingLen) =
            (if returnStatus = SigV4Success then
               (let out = k; remainingLen = remainingLen - length k in
                if dataLen (val r) > 0 \<and> val r \<noteq> None then
                  (if remainingLen < 1 then (SigV4InsufficientMemory, out, remainingLen)
                   else
                     (let out = out @ ''='';
                          remainingLen = remainingLen - 1;
                          (returnStatus, v) =
                             encodeURI char_signed (pData (val r)) remainingLen True True
                      in if returnStatus = SigV4Success
                         then (returnStatus, out @ v, remainingLen - length v)
                         else (returnStatus, out, remainingLen)))
                else (returnStatus, out, remainingLen))
             else (returnStatus, [], remainingLen))
      in if remainingLen < 1 \<and> \<not> isLast then (SigV4InsufficientMemory, out, remainingLen)
         else if \<not> isLast \<and> returnStatus = SigV4Success
         then (returnStatus, out @ ''&'', remainingLen - 1)
         else (returnStatus, out, remainingLen))"

text \<open>The loop of \<^verbatim>\<open>writeCanonicalQueryParameters\<close> over the records \<open>pQueryLoc[ i ]\<close>,
  \<open>i < numberOfParameters\<close>, given as a list. The context is updated after each record that
  was written; the first failure leaves the loop.\<close>

fun writeQueryParameters_loop ::
  "bool \<Rightarrow> SigV4KeyValuePair_t list \<Rightarrow> CanonicalContext_t \<Rightarrow> SigV4Status_t \<times> CanonicalContext_t" where
  "writeQueryParameters_loop char_signed [] pCanonicalRequest = (SigV4Success, pCanonicalRequest)"
| "writeQueryParameters_loop char_signed (r # rs) pCanonicalRequest =
     (let (returnStatus, out, remainingLen) =
            writeQueryParameter char_signed r (rs = []) (bufRemaining pCanonicalRequest)
      in if returnStatus \<noteq> SigV4Success then (returnStatus, pCanonicalRequest)
         else writeQueryParameters_loop char_signed rs
                (pCanonicalRequest\<lparr>buf := buf pCanonicalRequest @ out,
                                   bufRemaining := remainingLen\<rparr>))"

definition writeCanonicalQueryParameters ::
  "bool \<Rightarrow> CanonicalContext_t \<Rightarrow> nat \<Rightarrow> SigV4Status_t \<times> CanonicalContext_t" where
  "writeCanonicalQueryParameters char_signed pCanonicalRequest numberOfParameters =
     writeQueryParameters_loop char_signed
       (map (pQueryLoc pCanonicalRequest) [0..<numberOfParameters]) pCanonicalRequest"

text \<open>\<^verbatim>\<open>generateCanonicalQuery\<close>. The source sorts with the C library's \<^verbatim>\<open>qsort\<close>, which is
  the argument \<open>qsort\<close> here: it maps the comparison function and the first
  \<open>numberOfParameters\<close> records to the array's new contents. The final line feed is stored
  without a test of the remaining length.\<close>

definition generateCanonicalQuery ::
  "((SigV4KeyValuePair_t \<Rightarrow> SigV4KeyValuePair_t \<Rightarrow> int) \<Rightarrow> SigV4KeyValuePair_t list
      \<Rightarrow> SigV4KeyValuePair_t list)
   \<Rightarrow> bool \<Rightarrow> nat \<Rightarrow> string \<Rightarrow> CanonicalContext_t \<Rightarrow> SigV4Status_t \<times> CanonicalContext_t" where
  "generateCanonicalQuery qsort char_signed SIGV4_MAX_QUERY_PAIR_COUNT pQuery pCanonicalContext =
     (let (numberOfParameters, ctx) =
            setQueryStringFieldsAndValues SIGV4_MAX_QUERY_PAIR_COUNT pQuery pCanonicalContext
      in if numberOfParameters > SIGV4_MAX_QUERY_PAIR_COUNT
         then (SigV4MaxQueryPairCountExceeded, ctx)
         else
           (let sortedLoc = qsort cmpQueryFieldValue (map (pQueryLoc ctx) [0..<numberOfParameters]);
                ctx = ctx\<lparr>pQueryLoc :=
                        (\<lambda>i. if i < numberOfParameters then sortedLoc ! i else pQueryLoc ctx i)\<rparr>;
                (returnStatus, ctx) =
                   writeCanonicalQueryParameters char_signed ctx numberOfParameters
            in if returnStatus = SigV4Success
               then (returnStatus,
                     ctx\<lparr>buf := buf ctx @ [CHR 0x0A],
                         bufRemaining := size_sub (bufRemaining ctx) 1\<rparr>)
               else (returnStatus, ctx)))"

text \<open>The order of the specification (4.5, phase 2), written from its words, for comparison
  with \<^verbatim>\<open>cmpQueryFieldValue\<close>: keys are compared by unsigned byte order over the first
  \<open>min(|a.key|, |b.key|)\<close> bytes; on a tie the shorter key sorts first; if the keys are equal,
  the values are compared likewise. The results are \<open>-1\<close>, \<open>0\<close> and \<open>1\<close>.\<close>

fun unsigned_byte_order :: "string \<Rightarrow> string \<Rightarrow> int" where
  "unsigned_byte_order (a # as) (b # bs) =
     (if (of_char a :: nat) < of_char b then - 1
      else if (of_char b :: nat) < of_char a then 1
      else unsigned_byte_order as bs)"
| "unsigned_byte_order as bs = 0"

definition spec_string_order :: "string \<Rightarrow> string \<Rightarrow> int" where
  "spec_string_order a b =
     (let m = min (length a) (length b);
          c = unsigned_byte_order (take m a) (take m b)
      in if c \<noteq> 0 then c
         else if length a < length b then - 1
         else if length b < length a then 1
         else 0)"

definition spec_record_order :: "SigV4KeyValuePair_t \<Rightarrow> SigV4KeyValuePair_t \<Rightarrow> int" where
  "spec_record_order a b =
     (let c = spec_string_order (pData (key a)) (pData (key b))
      in if c \<noteq> 0 then c else spec_string_order (pData (val a)) (pData (val b)))"

text \<open>A record none of whose bytes is zero.\<close>

definition nul_free :: "SigV4KeyValuePair_t \<Rightarrow> bool" where
  "nul_free r = (CHR 0x00 \<notin> set (pData (key r)) \<and> CHR 0x00 \<notin> set (pData (val r)))"

text \<open>The text that \<^verbatim>\<open>writeCanonicalQueryParameters\<close> writes for a list of records when the
  buffer is large enough: for each record the encoded key, then \<^verbatim>\<open>=\<close> and the encoded value
  if the value is not empty, and \<^verbatim>\<open>&\<close> between records.\<close>

definition parameterText :: "bool \<Rightarrow> SigV4KeyValuePair_t \<Rightarrow> string" where
  "parameterText char_signed r =
     concat (map (encodeByte char_signed True False) (beforeNul (pData (key r)))) @
     (if dataLen (val r) > 0
      then ''='' @ concat (map (encodeByte char_signed True True) (beforeNul (pData (val r))))
      else [])"

fun canonicalQueryText :: "bool \<Rightarrow> SigV4KeyValuePair_t list \<Rightarrow> string" where
  "canonicalQueryText char_signed [] = []"
| "canonicalQueryText char_signed [r] = parameterText char_signed r"
| "canonicalQueryText char_signed (r # rs) =
     parameterText char_signed r @ ''&'' @ canonicalQueryText char_signed rs"

text \<open>A comparison sort by insertion, which meets what the C standard asks of \<^verbatim>\<open>qsort\<close>; it
  instantiates the argument \<open>qsort\<close> where a concrete one is needed.\<close>

fun insert_by :: "('a \<Rightarrow> 'a \<Rightarrow> int) \<Rightarrow> 'a \<Rightarrow> 'a list \<Rightarrow> 'a list" where
  "insert_by cmp x [] = [x]"
| "insert_by cmp x (y # ys) = (if cmp x y \<le> 0 then x # y # ys else y # insert_by cmp x ys)"

definition insertion_qsort :: "('a \<Rightarrow> 'a \<Rightarrow> int) \<Rightarrow> 'a list \<Rightarrow> 'a list" where
  "insertion_qsort cmp xs = foldr (insert_by cmp) xs []"

text \<open>The records that \<^verbatim>\<open>generateCanonicalQuery\<close> hands to \<^verbatim>\<open>qsort\<close>: the first
  \<open>numberOfParameters\<close> entries of the array after the split.\<close>

definition queryRecords :: "nat \<Rightarrow> string \<Rightarrow> CanonicalContext_t \<Rightarrow> SigV4KeyValuePair_t list" where
  "queryRecords SIGV4_MAX_QUERY_PAIR_COUNT pQuery pCanonicalContext =
     (let (numberOfParameters, ctx) =
            setQueryStringFieldsAndValues SIGV4_MAX_QUERY_PAIR_COUNT pQuery pCanonicalContext
      in map (pQueryLoc ctx) [0..<numberOfParameters])"

text \<open>The invariant of the split loop on a query without zero bytes: the records counted so
  far, and the key of the record under construction, have no zero byte.\<close>

definition scan_inv :: "query_scan \<Rightarrow> bool" where
  "scan_inv s \<longleftrightarrow>
     (\<forall>j < qs_numberOfParameters s. nul_free (qs_pQueryLoc s j)) \<and>
     (qs_fieldHasValue s \<longrightarrow>
        CHR 0x00 \<notin> set (pData (key (qs_pQueryLoc s (qs_numberOfParameters s)))))"

section \<open>Sort core (\<^verbatim>\<open>sigv4_quicksort.c\<close>)\<close>

text \<open>The array \<open>pArray\<close> of \<open>numItems\<close> items of \<open>itemSize\<close> bytes is a list of items;
  \<open>pArray + k * itemSize\<close> is the item of index \<open>k\<close>. C leaves an access outside the array
  (and outside the local array \<open>stack\<close>) undefined: the functions return \<open>None\<close> there, and
  \<open>None\<close> is also the value of a loop that does not end. Indices are \<^verbatim>\<open>size_t\<close> values:
  \<open>+\<close> and \<open>-\<close> wrap around.\<close>

definition size_add :: "nat \<Rightarrow> nat \<Rightarrow> nat" where
  "size_add a b = (a + b) mod (SIZE_MAX + 1)"

text \<open>\<^verbatim>\<open>swap\<close> exchanges the \<open>itemSize\<close> bytes of two items one by one, that is the two
  items (and changes nothing when both are the same item).\<close>

definition swap :: "'a list \<Rightarrow> nat \<Rightarrow> nat \<Rightarrow> 'a list option" where
  "swap pArray first second =
     (if first < length pArray \<and> second < length pArray
      then Some (pArray[first := pArray ! second, second := pArray ! first])
      else None)"

text \<open>The \<^verbatim>\<open>for\<close> loop of \<^verbatim>\<open>partition\<close>, \<^verbatim>\<open>for( ; j <= high - 1; j++ )\<close>, with the pivot read
  through its pointer \<open>pArray + high * itemSize\<close>.\<close>

partial_function (option) partition_loop ::
  "('a \<Rightarrow> 'a \<Rightarrow> int) \<Rightarrow> nat \<Rightarrow> 'a list \<Rightarrow> nat \<Rightarrow> nat \<Rightarrow> ('a list \<times> nat) option" where
  "partition_loop comparator high pArray i j =
     (if j \<le> size_sub high 1 then
        (if j < length pArray \<and> high < length pArray then
           (if comparator (pArray ! j) (pArray ! high) < 0 then
              (case swap pArray (size_add i 1) j of
                 None \<Rightarrow> None
               | Some pArray' \<Rightarrow>
                   partition_loop comparator high pArray' (size_add i 1) (size_add j 1))
            else partition_loop comparator high pArray i (size_add j 1))
         else None)
      else Some (pArray, i))"

declare partition_loop.simps [code]

definition partition ::
  "('a \<Rightarrow> 'a \<Rightarrow> int) \<Rightarrow> 'a list \<Rightarrow> nat \<Rightarrow> nat \<Rightarrow> ('a list \<times> nat) option" where
  "partition comparator pArray low high =
     (case partition_loop comparator high pArray (size_sub low 1) low of
        None \<Rightarrow> None
      | Some (pArray', i) \<Rightarrow>
          (case swap pArray' (size_add i 1) high of
             None \<Rightarrow> None
           | Some pArray'' \<Rightarrow> Some (pArray'', size_add i 1)))"

text \<open>\<^verbatim>\<open>stack[ top++ ] = v\<close> on the local array \<open>stack\<close> of \<open>capacity\<close> entries. The stack is
  a list whose head is the entry of index \<open>top - 1\<close>.\<close>

definition push :: "nat \<Rightarrow> nat \<Rightarrow> nat list \<Rightarrow> nat list option" where
  "push capacity v stack = (if length stack < capacity then Some (v # stack) else None)"

text \<open>The \<^verbatim>\<open>while( top > 0 )\<close> loop of \<^verbatim>\<open>quickSortHelper\<close>.\<close>

partial_function (option) quickSortHelper_loop ::
  "('a \<Rightarrow> 'a \<Rightarrow> int) \<Rightarrow> nat \<Rightarrow> 'a list \<Rightarrow> nat list \<Rightarrow> 'a list option" where
  "quickSortHelper_loop comparator capacity pArray stack =
     (case stack of
        [] \<Rightarrow> Some pArray
      | [high] \<Rightarrow> None
      | high # low # stack \<Rightarrow>
          (case partition comparator pArray low high of
             None \<Rightarrow> None
           | Some (pArray', partitionIndex) \<Rightarrow>
               (case (if partitionIndex \<noteq> 0 \<and> size_sub partitionIndex 1 > low
                      then Option.bind (push capacity low stack)
                             (push capacity (size_sub partitionIndex 1))
                      else Some stack) of
                  None \<Rightarrow> None
                | Some stack \<Rightarrow>
                    (case (if size_add partitionIndex 1 < high
                           then Option.bind (push capacity (size_add partitionIndex 1) stack)
                                  (push capacity high)
                           else Some stack) of
                       None \<Rightarrow> None
                     | Some stack \<Rightarrow>
                         quickSortHelper_loop comparator capacity pArray' stack))))"

declare quickSortHelper_loop.simps [code]

text \<open>\<^verbatim>\<open>quickSortHelper\<close>: the local array \<open>stack\<close> has \<open>high - low + 1\<close> entries, and
  \<open>low\<close> and \<open>high\<close> are pushed first.\<close>

definition quickSortHelper ::
  "('a \<Rightarrow> 'a \<Rightarrow> int) \<Rightarrow> 'a list \<Rightarrow> nat \<Rightarrow> nat \<Rightarrow> 'a list option" where
  "quickSortHelper comparator pArray low high =
     (let capacity = size_add (size_sub high low) 1 in
      case Option.bind (push capacity low []) (push capacity high) of
        None \<Rightarrow> None
      | Some stack \<Rightarrow> quickSortHelper_loop comparator capacity pArray stack)"

text \<open>\<^verbatim>\<open>quickSort\<close>. The argument is the array (\<open>None\<close> for a \<^verbatim>\<open>NULL\<close> pointer), whose length
  is \<open>numItems\<close>. The result is \<open>None\<close> when the call runs into undefined behaviour or does
  not return, and otherwise the memory after the call.\<close>

definition quickSort :: "('a \<Rightarrow> 'a \<Rightarrow> int) \<Rightarrow> 'a list option \<Rightarrow> 'a list option option" where
  "quickSort comparator pArray =
     (case pArray of
        None \<Rightarrow> Some None
      | Some items \<Rightarrow>
          if length items \<noteq> 0
          then map_option Some (quickSortHelper comparator items 0 (size_sub (length items) 1))
          else Some (Some items))"

section \<open>Hash and HMAC\<close>

text \<open>Modelled from the spec: \<^verbatim>\<open>SigV4CryptoInterface_t\<close>, declared in the absent \<^verbatim>\<open>sigv4.h\<close>:
  the three hash operations, which return 0 on success, the block and digest lengths, and
  the hash context \<open>pHashContext\<close> (\<open>None\<close> for \<^verbatim>\<open>NULL\<close>), whose state the operations change.
  The operations are the caller's: \<open>hashUpdate\<close> gets the input bytes, \<open>hashFinal\<close> the
  length of the output buffer and gives the bytes it stores there.\<close>

record 'h SigV4CryptoInterface_t =
  hashInit :: "'h option \<Rightarrow> int \<times> 'h option"
  hashUpdate :: "'h option \<Rightarrow> string \<Rightarrow> int \<times> 'h option"
  hashFinal :: "'h option \<Rightarrow> nat \<Rightarrow> int \<times> string \<times> 'h option"
  hashBlockLen :: nat
  hashDigestLen :: nat
  pHashContext :: "'h option"

text \<open>A call of one of the operations on the interface's context; the context after the call
  is stored back.\<close>

definition callInit :: "'h SigV4CryptoInterface_t \<Rightarrow> int \<times> 'h SigV4CryptoInterface_t" where
  "callInit ci = (let (st, h) = hashInit ci (pHashContext ci) in (st, ci\<lparr>pHashContext := h\<rparr>))"

definition callUpdate ::
  "'h SigV4CryptoInterface_t \<Rightarrow> string \<Rightarrow> int \<times> 'h SigV4CryptoInterface_t" where
  "callUpdate ci pInput =
     (let (st, h) = hashUpdate ci (pHashContext ci) pInput in (st, ci\<lparr>pHashContext := h\<rparr>))"

definition callFinal ::
  "'h SigV4CryptoInterface_t \<Rightarrow> nat \<Rightarrow> int \<times> string \<times> 'h SigV4CryptoInterface_t" where
  "callFinal ci outputLen =
     (let (st, out, h) = hashFinal ci (pHashContext ci) outputLen
      in (st, out, ci\<lparr>pHashContext := h\<rparr>))"

text \<open>\<^verbatim>\<open>lowercaseHexEncode\<close>: the status and the bytes stored in \<open>pHexOutput\<close>, whose capacity
  is the second argument. \<^verbatim>\<open>( c & 0xF0 ) >> 4\<close> and \<^verbatim>\<open>c & 0x0F\<close> are the two nibbles of the
  byte.\<close>

definition digitArr :: string where
  "digitArr = ''0123456789abcdef''"

definition lowercaseHexEncode :: "string \<Rightarrow> nat \<Rightarrow> SigV4Status_t \<times> string" where
  "lowercaseHexEncode pInputStr hexCapacity =
     (if hexCapacity < length pInputStr * 2 then (SigV4InsufficientMemory, [])
      else (SigV4Success,
            concat (map (\<lambda>c. [digitArr ! (of_char c div 16), digitArr ! (of_char c mod 16)])
                     pInputStr)))"

text \<open>\<^verbatim>\<open>completeHash\<close>: the status, the bytes stored in \<open>pOutput\<close>, the interface.\<close>

definition completeHash ::
  "string \<Rightarrow> nat \<Rightarrow> 'h SigV4CryptoInterface_t \<Rightarrow> int \<times> string \<times> 'h SigV4CryptoInterface_t" where
  "completeHash pInput outputLen pCryptoInterface =
     (let (hashStatus, ci) = callInit pCryptoInterface;
          (hashStatus, ci) = (if hashStatus = 0 then callUpdate ci pInput else (hashStatus, ci))
      in if hashStatus = 0 then callFinal ci outputLen else (hashStatus, [], ci))"

text \<open>\<^verbatim>\<open>completeHashAndHexEncode\<close>: the status, the bytes stored in \<open>pOutput\<close> (none unless the
  status is \<open>SigV4Success\<close>; their number is then \<open>*pOutputLen\<close>), the interface. The digest
  is the first \<open>hashDigestLen\<close> bytes of the local array \<open>hashedPayload\<close>, which \<open>hashFinal\<close>
  has filled.\<close>

definition completeHashAndHexEncode ::
  "string \<Rightarrow> nat \<Rightarrow> 'h SigV4CryptoInterface_t
   \<Rightarrow> SigV4Status_t \<times> string \<times> 'h SigV4CryptoInterface_t" where
  "completeHashAndHexEncode pInput pOutputLen pCryptoInterface =
     (let (hashStatus, hashedPayload, ci) =
            completeHash pInput (hashDigestLen pCryptoInterface) pCryptoInterface
      in if hashStatus \<noteq> 0 then (SigV4HashError, [], ci)
         else
           (let (returnStatus, hex) =
                  lowercaseHexEncode (take (hashDigestLen pCryptoInterface) hashedPayload) pOutputLen
            in (returnStatus, hex, ci)))"

text \<open>\<^verbatim>\<open>HmacContext_t\<close>: the key array \<open>key\<close> (here \<open>hkey\<close>, of \<open>SIGV4_HASH_MAX_BLOCK_LENGTH\<close>
  bytes) and \<open>keyLen\<close>; its pointer to the crypto interface is the interface that the
  functions take and give back.\<close>

record HmacContext_t =
  hkey :: string
  keyLen :: nat

text \<open>\<^verbatim>\<open>memcpy\<close> of \<open>bytes\<close> into an array at the offset \<open>off\<close>.\<close>

definition store :: "string \<Rightarrow> nat \<Rightarrow> string \<Rightarrow> string" where
  "store array off bytes = take off array @ bytes @ drop (off + length bytes) array"

text \<open>\<^verbatim>\<open>key[ i ] ^= pad\<close>: the exclusive or of two bytes, bit by bit.\<close>

fun xor_char :: "char \<Rightarrow> char \<Rightarrow> char" where
  "xor_char (Char a0 a1 a2 a3 a4 a5 a6 a7) (Char b0 b1 b2 b3 b4 b5 b6 b7) =
     Char (a0 \<noteq> b0) (a1 \<noteq> b1) (a2 \<noteq> b2) (a3 \<noteq> b3) (a4 \<noteq> b4) (a5 \<noteq> b5) (a6 \<noteq> b6) (a7 \<noteq> b7)"

definition xor_bytes :: "char \<Rightarrow> string \<Rightarrow> string" where
  "xor_bytes pad bytes = map (\<lambda>c. xor_char c pad) bytes"

definition hmacKey ::
  "HmacContext_t \<Rightarrow> 'h SigV4CryptoInterface_t \<Rightarrow> string
   \<Rightarrow> int \<times> HmacContext_t \<times> 'h SigV4CryptoInterface_t" where
  "hmacKey pHmacContext ci pKey =
     (let (returnStatus, hc, ci) =
            (if keyLen pHmacContext + length pKey \<le> hashBlockLen ci then
               (0, pHmacContext\<lparr>hkey := store (hkey pHmacContext) (keyLen pHmacContext) pKey\<rparr>, ci)
             else
               (let (returnStatus, ci) =
                      (if keyLen pHmacContext \<le> hashBlockLen ci then
                         (let (returnStatus, ci) = callInit ci in
                          if returnStatus = 0
                          then callUpdate ci (take (keyLen pHmacContext) (hkey pHmacContext))
                          else (returnStatus, ci))
                       else (0, ci));
                    (returnStatus, ci) =
                      (if returnStatus = 0 then callUpdate ci pKey else (returnStatus, ci))
                in (returnStatus, pHmacContext, ci)))
      in (returnStatus, hc\<lparr>keyLen := keyLen hc + length pKey\<rparr>, ci))"

definition hmacData ::
  "HmacContext_t \<Rightarrow> 'h SigV4CryptoInterface_t \<Rightarrow> string
   \<Rightarrow> int \<times> HmacContext_t \<times> 'h SigV4CryptoInterface_t" where
  "hmacData pHmacContext ci pDataIn =
     (let (returnStatus, hc, ci) =
            (if keyLen pHmacContext > hashBlockLen ci then
               (let (returnStatus, digest, ci) = callFinal ci (hashBlockLen ci) in
                (returnStatus,
                 pHmacContext\<lparr>hkey := store (hkey pHmacContext) 0 digest,
                              keyLen := hashDigestLen ci\<rparr>, ci))
             else (0, pHmacContext, ci));
          (returnStatus, hc, ci) =
            (if returnStatus = 0 then
               (let padded = store (hkey hc) (keyLen hc)
                               (replicate (hashBlockLen ci - keyLen hc) (CHR 0x00));
                    inner = xor_bytes (CHR 0x36) (take (hashBlockLen ci) padded)
                              @ drop (hashBlockLen ci) padded;
                    (returnStatus, ci) = callInit ci
                in (returnStatus, hc\<lparr>hkey := inner\<rparr>, ci))
             else (returnStatus, hc, ci));
          (returnStatus, ci) =
            (if returnStatus = 0 then callUpdate ci (take (hashBlockLen ci) (hkey hc))
             else (returnStatus, ci));
          (returnStatus, ci) =
            (if returnStatus = 0 \<and> length pDataIn > 0 then callUpdate ci pDataIn
             else (returnStatus, ci))
      in (returnStatus, hc, ci))"

text \<open>\<^verbatim>\<open>hmacFinal\<close>: the status, the bytes stored in \<open>pMac\<close>, the context, the interface.\<close>

definition hmacFinal ::
  "HmacContext_t \<Rightarrow> 'h SigV4CryptoInterface_t \<Rightarrow> nat
   \<Rightarrow> int \<times> string \<times> HmacContext_t \<times> 'h SigV4CryptoInterface_t" where
  "hmacFinal pHmacContext ci macLen =
     (let (returnStatus, innerHashDigest, ci) = callFinal ci (hashDigestLen ci);
          (returnStatus, hc, ci) =
            (if returnStatus = 0 then
               (let outer = xor_bytes (CHR 0x6A) (take (hashBlockLen ci) (hkey pHmacContext))
                              @ drop (hashBlockLen ci) (hkey pHmacContext);
                    (returnStatus, ci) = callInit ci
                in (returnStatus, pHmacContext\<lparr>hkey := outer\<rparr>, ci))
             else (returnStatus, pHmacContext, ci));
          (returnStatus, ci) =
            (if returnStatus = 0 then callUpdate ci (take (hashBlockLen ci) (hkey hc))
             else (returnStatus, ci));
          (returnStatus, ci) =
            (if returnStatus = 0
             then callUpdate ci (take (hashDigestLen ci) innerHashDigest)
             else (returnStatus, ci));
          (returnStatus, mac, ci) =
            (if returnStatus = 0 then callFinal ci macLen else (returnStatus, [], ci))
      in (returnStatus, mac, hc\<lparr>keyLen := 0\<rparr>, ci))"

definition completeHmac ::
  "HmacContext_t \<Rightarrow> 'h SigV4CryptoInterface_t \<Rightarrow> string \<Rightarrow> string \<Rightarrow> nat
   \<Rightarrow> int \<times> string \<times> HmacContext_t \<times> 'h SigV4CryptoInterface_t" where
  "completeHmac pHmacContext ci pKey pDataIn outputLen =
     (let returnStatus = (if outputLen < hashDigestLen ci then - 1 else 0);
          (returnStatus, hc, ci) =
            (if returnStatus = 0 then hmacKey pHmacContext ci pKey
             else (returnStatus, pHmacContext, ci));
          (returnStatus, hc, ci) =
            (if returnStatus = 0 then hmacData hc ci pDataIn else (returnStatus, hc, ci))
      in if returnStatus = 0 then hmacFinal hc ci outputLen
         else (returnStatus, [], hc, ci))"

section \<open>Signing pipeline\<close>

text \<open>Modelled from the spec: the parameter structs and the constants of the absent headers
  \<^verbatim>\<open>sigv4.h\<close> and \<^verbatim>\<open>sigv4_internal.h\<close>. The spec gives the fields of the credential, of the
  HTTP parameters and of the signing parameters, the flag names (taken here as the bits 1,
  2 and 4 in the order the spec lists them), the default algorithm, the key prefix, the
  credential scope \<^verbatim>\<open>YYYYMMDD/region/service/aws4_request\<close> and the service name \<^verbatim>\<open>s3\<close> of
  length 2.\<close>

record SigV4Credentials_t =
  pAccessKeyId :: "string option"
  pSecretAccessKey :: "string option"
  pSecurityToken :: "string option"
  pExpiration :: "string option"

record SigV4HttpParameters_t =
  pHttpMethod :: "string option"
  flags :: nat
  pPath :: "string option"
  pQuery :: "string option"
  pHeaders :: "string option"
  pPayload :: "string option"

record 'h SigV4Parameters_t =
  pCredentials :: "SigV4Credentials_t option"
  pDateIso8601 :: "string option"
  pAlgorithm :: "string option"
  pRegion :: "string option"
  pService :: "string option"
  pCryptoInterface :: "'h SigV4CryptoInterface_t option"
  pHttpParameters :: "SigV4HttpParameters_t option"

definition SIGV4_HTTP_PATH_IS_CANONICAL_FLAG :: nat where
  "SIGV4_HTTP_PATH_IS_CANONICAL_FLAG = 0x1"

definition SIGV4_HTTP_QUERY_IS_CANONICAL_FLAG :: nat where
  "SIGV4_HTTP_QUERY_IS_CANONICAL_FLAG = 0x2"

definition SIGV4_HTTP_HEADERS_ARE_CANONICAL_FLAG :: nat where
  "SIGV4_HTTP_HEADERS_ARE_CANONICAL_FLAG = 0x4"

definition LINEFEED_CHAR :: char where
  "LINEFEED_CHAR = CHR 0x0A"

definition HTTP_EMPTY_PATH :: string where
  "HTTP_EMPTY_PATH = ''/''"

definition S3_SERVICE_NAME :: string where
  "S3_SERVICE_NAME = ''s3''"

definition S3_SERVICE_NAME_LEN :: nat where
  "S3_SERVICE_NAME_LEN = 2"

definition SIGV4_AWS4_HMAC_SHA256 :: string where
  "SIGV4_AWS4_HMAC_SHA256 = ''AWS4-HMAC-SHA256''"

definition SIGV4_HMAC_SIGNING_KEY_PREFIX :: string where
  "SIGV4_HMAC_SIGNING_KEY_PREFIX = ''AWS4''"

definition CREDENTIAL_SCOPE_TERMINATOR :: string where
  "CREDENTIAL_SCOPE_TERMINATOR = ''aws4_request''"

definition CREDENTIAL_SCOPE_SEPARATOR :: char where
  "CREDENTIAL_SCOPE_SEPARATOR = CHR ''/''"

definition ISO_DATE_SCOPE_LEN :: nat where
  "ISO_DATE_SCOPE_LEN = 8"

text \<open>What the build and the C implementation fix: the two configuration macros, whether
  plain \<^verbatim>\<open>char\<close> is signed, the C library's \<^verbatim>\<open>qsort\<close>, and the contents of the record
  array before anything is stored in it (the context is an uninitialised local variable).\<close>

record sigv4_env =
  SIGV4_PROCESSING_BUFFER_LENGTH :: nat
  SIGV4_MAX_QUERY_PAIR_COUNT :: nat
  SIGV4_HASH_MAX_BLOCK_LENGTH :: nat
  char_is_signed :: bool
  libc_qsort :: "(SigV4KeyValuePair_t \<Rightarrow> SigV4KeyValuePair_t \<Rightarrow> int)
                 \<Rightarrow> SigV4KeyValuePair_t list \<Rightarrow> SigV4KeyValuePair_t list"
  uninitialised_records :: "nat \<Rightarrow> SigV4KeyValuePair_t"

text \<open>The first \<open>n\<close> bytes behind a pointer that has no length field (\<open>pDateIso8601\<close>);
  \<open>None\<close> when the pointer is \<^verbatim>\<open>NULL\<close> or fewer bytes are there.\<close>

definition bytes_at :: "string option \<Rightarrow> nat \<Rightarrow> string option" where
  "bytes_at p n =
     (case p of None \<Rightarrow> None
      | Some s \<Rightarrow> if n \<le> length s then Some (take n s) else None)"

definition writeLineToCanonicalRequest ::
  "string \<Rightarrow> CanonicalContext_t \<Rightarrow> SigV4Status_t \<times> CanonicalContext_t" where
  "writeLineToCanonicalRequest pLine pCanonicalContext =
     (if bufRemaining pCanonicalContext < length pLine + 1
      then (SigV4InsufficientMemory, pCanonicalContext)
      else (SigV4Success,
            pCanonicalContext\<lparr>buf := buf pCanonicalContext @ pLine @ [LINEFEED_CHAR],
                              bufRemaining := bufRemaining pCanonicalContext - (length pLine + 1)\<rparr>))"

text \<open>\<^verbatim>\<open>generateCanonicalURI\<close>. The second pass reads the output of the first and writes
  behind it, into the \<open>bufRemaining - encodedLen\<close> bytes that are left; its output is then
  copied to the cursor.\<close>

definition generateCanonicalURI ::
  "bool \<Rightarrow> string \<Rightarrow> bool \<Rightarrow> CanonicalContext_t \<Rightarrow> SigV4Status_t \<times> CanonicalContext_t" where
  "generateCanonicalURI char_signed pUri encodeTwice pCanonicalRequest =
     (let (returnStatus, encoded) =
            encodeURI char_signed pUri (bufRemaining pCanonicalRequest) False False;
          (returnStatus, ctx) =
            (if returnStatus = SigV4Success then
               (if encodeTwice then
                  (let doubleEncodedLen = size_sub (bufRemaining pCanonicalRequest) (length encoded);
                       (returnStatus, doubleEncoded) =
                          encodeURI char_signed encoded doubleEncodedLen False False
                   in if returnStatus = SigV4Success
                      then (returnStatus,
                            pCanonicalRequest
                              \<lparr>buf := buf pCanonicalRequest @ doubleEncoded,
                               bufRemaining := size_sub (bufRemaining pCanonicalRequest)
                                                 (length doubleEncoded)\<rparr>)
                      else (returnStatus, pCanonicalRequest))
                else (returnStatus,
                      pCanonicalRequest
                        \<lparr>buf := buf pCanonicalRequest @ encoded,
                         bufRemaining := size_sub (bufRemaining pCanonicalRequest)
                                           (length encoded)\<rparr>))
             else (returnStatus, pCanonicalRequest))
      in if returnStatus = SigV4Success then
           (if bufRemaining ctx < 1 then (SigV4InsufficientMemory, ctx)
            else (returnStatus,
                  ctx\<lparr>buf := buf ctx @ [LINEFEED_CHAR],
                      bufRemaining := bufRemaining ctx - 1\<rparr>))
         else (returnStatus, ctx))"

definition sizeNeededForCredentialScope :: "'h SigV4Parameters_t \<Rightarrow> nat" where
  "sizeNeededForCredentialScope pSigV4Params =
     ISO_DATE_SCOPE_LEN + 1 + dataLen (pRegion pSigV4Params) + 1 +
     dataLen (pService pSigV4Params) + 1 + length CREDENTIAL_SCOPE_TERMINATOR + 1"

text \<open>\<^verbatim>\<open>generateCredentialScope\<close>: the status and the bytes stored in \<open>pCredScope\<close>, whose
  capacity is the second argument; \<open>None\<close> if the date pointer cannot be read.\<close>

definition generateCredentialScope ::
  "'h SigV4Parameters_t \<Rightarrow> nat \<Rightarrow> (SigV4Status_t \<times> string) option" where
  "generateCredentialScope pSigV4Params credScopeLen =
     (if credScopeLen < sizeNeededForCredentialScope pSigV4Params
      then Some (SigV4InsufficientMemory, [])
      else do {
        date \<leftarrow> bytes_at (pDateIso8601 pSigV4Params) ISO_DATE_SCOPE_LEN;
        Some (SigV4Success,
              date @ [CREDENTIAL_SCOPE_SEPARATOR] @ pData (pRegion pSigV4Params) @
              [CREDENTIAL_SCOPE_SEPARATOR] @ pData (pService pSigV4Params) @
              [CREDENTIAL_SCOPE_SEPARATOR] @ CREDENTIAL_SCOPE_TERMINATOR @ [LINEFEED_CHAR])
      })"

text \<open>\<^verbatim>\<open>writeStringToSignPrefix\<close>: the bytes stored at \<open>pBufStart\<close>; their number is the
  returned size.\<close>

definition writeStringToSignPrefix :: "string \<Rightarrow> string option \<Rightarrow> string option" where
  "writeStringToSignPrefix pAlgorithmIn pDate =
     do {
       date \<leftarrow> bytes_at pDate SIGV4_ISO_STRING_LEN;
       Some (pAlgorithmIn @ [LINEFEED_CHAR] @ date @ [LINEFEED_CHAR])
     }"

text \<open>\<^verbatim>\<open>writeStringToSign\<close>. The hash of the canonical request is hex-encoded behind the
  cursor and moved to its place behind the prefix; the buffer then holds the string to
  sign.\<close>

definition writeStringToSign ::
  "nat \<Rightarrow> 'h SigV4Parameters_t \<Rightarrow> 'h SigV4CryptoInterface_t \<Rightarrow> CanonicalContext_t
   \<Rightarrow> (SigV4Status_t \<times> CanonicalContext_t \<times> 'h SigV4CryptoInterface_t) option" where
  "writeStringToSign processingLen pParams ci pCanonicalContext =
     (let algorithm = (if pAlgorithm pParams = None \<or> dataLen (pAlgorithm pParams) = 0
                       then SIGV4_AWS4_HMAC_SHA256 else pData (pAlgorithm pParams));
          (returnStatus, hex, ci) =
             completeHashAndHexEncode (buf pCanonicalContext) (bufRemaining pCanonicalContext) ci;
          sizeNeededBeforeHash = length algorithm + 1 + SIGV4_ISO_STRING_LEN + 1 +
                                 sizeNeededForCredentialScope pParams
      in if returnStatus \<noteq> SigV4Success then Some (returnStatus, pCanonicalContext, ci)
         else if sizeNeededBeforeHash + hashDigestLen ci * 2 > processingLen
         then Some (SigV4InsufficientMemory, pCanonicalContext, ci)
         else do {
           prefix \<leftarrow> writeStringToSignPrefix algorithm (pDateIso8601 pParams);
           (scopeStatus, scope) \<leftarrow>
              generateCredentialScope pParams (sizeNeededForCredentialScope pParams);
           Some (SigV4Success,
                 pCanonicalContext
                   \<lparr>buf := prefix @ scope @ hex,
                    bufRemaining := processingLen - length hex - sizeNeededBeforeHash\<rparr>,
                 ci)
         })"

text \<open>\<^verbatim>\<open>generateSigningKey\<close>. \<open>signingKeyLen\<close> is \<open>pSigningKey->dataLen\<close> on entry. The result
  is the status, the bytes of the signing key (\<open>pSigningKey\<close> on return, set only on
  success), the HMAC context, the interface and \<open>*pBytesRemaining\<close>; \<open>None\<close> when
  \<open>pCredentials\<close> or the date cannot be read. The test of \<open>*pBytesRemaining\<close> against two
  digest lengths ends in the statement \<^verbatim>\<open>returnStatus == SigV4InsufficientMemory;\<close>, a
  comparison whose value is dropped: it changes nothing.\<close>

definition generateSigningKey ::
  "'h SigV4Parameters_t \<Rightarrow> HmacContext_t \<Rightarrow> 'h SigV4CryptoInterface_t \<Rightarrow> nat \<Rightarrow> nat
   \<Rightarrow> (SigV4Status_t \<times> string \<times> HmacContext_t \<times> 'h SigV4CryptoInterface_t \<times> nat) option" where
  "generateSigningKey pSigV4Params pHmacContext ci signingKeyLen pBytesRemaining =
     (let returnStatus = SigV4Success;
          (hmacStatus, hc, ci) = hmacKey pHmacContext ci SIGV4_HMAC_SIGNING_KEY_PREFIX;
          returnStatus = (if pBytesRemaining < hashDigestLen ci * 2 then returnStatus
                          else returnStatus)
      in do {
        (hmacStatus, k1, hc, ci, pBytesRemaining) \<leftarrow>
          (if hmacStatus = 0 then do {
             creds \<leftarrow> pCredentials pSigV4Params;
             date \<leftarrow> bytes_at (pDateIso8601 pSigV4Params) ISO_DATE_SCOPE_LEN;
             let (hmacStatus, k1, hc, ci) =
                   completeHmac hc ci (pData (pSecretAccessKey creds)) date signingKeyLen;
             Some (hmacStatus, k1, hc, ci, size_sub pBytesRemaining (hashDigestLen ci))
           } else Some (hmacStatus, [], hc, ci, pBytesRemaining));
        let (hmacStatus, k2, hc, ci, pBytesRemaining) =
          (if hmacStatus = 0 then
             (let (hmacStatus, k2, hc, ci) =
                    completeHmac hc ci (take (hashDigestLen ci) k1)
                      (pData (pRegion pSigV4Params)) pBytesRemaining
              in (hmacStatus, k2, hc, ci, size_sub pBytesRemaining (hashDigestLen ci)))
           else (hmacStatus, [], hc, ci, pBytesRemaining));
        let (hmacStatus, k3, hc, ci) =
          (if hmacStatus = 0 then
             completeHmac hc ci (take (hashDigestLen ci) k2)
               (pData (pService pSigV4Params)) (hashDigestLen ci)
           else (hmacStatus, [], hc, ci));
        let (hmacStatus, k4, hc, ci) =
          (if hmacStatus = 0 then
             completeHmac hc ci (take (hashDigestLen ci) k3)
               CREDENTIAL_SCOPE_TERMINATOR (hashDigestLen ci)
           else (hmacStatus, [], hc, ci));
        Some (if hmacStatus = 0
              then (returnStatus, take (hashDigestLen ci) k4, hc, ci, pBytesRemaining)
              else (SigV4HashError, [], hc, ci, pBytesRemaining))
      })"

text \<open>\<^verbatim>\<open>verifySigV4Parameters\<close>, which \<^verbatim>\<open>SigV4_GenerateHTTPAuthorization\<close> does not call: the
  call is inside a comment.\<close>

definition verifySigV4Parameters :: "'h SigV4Parameters_t option \<Rightarrow> SigV4Status_t" where
  "verifySigV4Parameters pParams =
     (case pParams of
        None \<Rightarrow> SigV4InvalidParameter
      | Some p \<Rightarrow>
        (case pCredentials p of
           None \<Rightarrow> SigV4InvalidParameter
         | Some c \<Rightarrow>
           if pAccessKeyId c = None then SigV4InvalidParameter
           else if pSecretAccessKey c = None then SigV4InvalidParameter
           else if pSecurityToken c = None then SigV4InvalidParameter
           else if pExpiration c = None then SigV4InvalidParameter
           else if pDateIso8601 p = None then SigV4InvalidParameter
           else if pRegion p = None then SigV4InvalidParameter
           else if pService p = None then SigV4InvalidParameter
           else
             (case pCryptoInterface p of
                None \<Rightarrow> SigV4InvalidParameter
              | Some ci \<Rightarrow>
                if pHashContext ci = None then SigV4InvalidParameter
                else
                  (case pHttpParameters p of
                     None \<Rightarrow> SigV4InvalidParameter
                   | Some h \<Rightarrow>
                     if pHttpMethod h = None then SigV4InvalidParameter
                     else if pQuery h = None then SigV4InvalidParameter
                     else if pHeaders h = None then SigV4InvalidParameter
                     else SigV4Success))))"

text \<open>The output parameters of \<^verbatim>\<open>SigV4_GenerateHTTPAuthorization\<close>: the buffer \<open>pAuthBuf\<close> with
  \<open>*authBufLen\<close>, and \<open>*pSignature\<close> with \<open>*signatureLen\<close>.\<close>

record SigV4_outputs =
  pAuthBuf :: "string option"
  authBufLen :: nat
  pSignature :: "string option"
  signatureLen :: nat

text \<open>The first part of \<^verbatim>\<open>SigV4_GenerateHTTPAuthorization\<close>, up to the hash of the payload:
  it assembles the canonical request in the processing buffer. The arguments are the
  parameters with the two structs that the function reads in every run. Where the
  \<^verbatim>\<open>HEADERS_ARE_CANONICAL\<close> flag is clear the source has nothing but a comment (the call of
  \<^verbatim>\<open>generateCanonicalHeaders\<close> is inside it): no byte is written for the headers.\<close>

definition assembleCanonicalRequest ::
  "sigv4_env \<Rightarrow> 'h SigV4Parameters_t \<Rightarrow> SigV4HttpParameters_t \<Rightarrow> 'h SigV4CryptoInterface_t
   \<Rightarrow> SigV4Status_t \<times> CanonicalContext_t \<times> 'h SigV4CryptoInterface_t" where
  "assembleCanonicalRequest env pParams http ci =
     (let canonicalContext =
            \<lparr>buf = [], bufRemaining = SIGV4_PROCESSING_BUFFER_LENGTH env,
             pQueryLoc = uninitialised_records env\<rparr>;
          (returnStatus, canonicalContext) =
             writeLineToCanonicalRequest (pData (pHttpMethod http)) canonicalContext;
          path = (if pPath http = None \<or> dataLen (pPath http) = 0 then HTTP_EMPTY_PATH
                  else pData (pPath http));
          (returnStatus, canonicalContext) =
             (if returnStatus = SigV4Success then
                (if flags http AND SIGV4_HTTP_PATH_IS_CANONICAL_FLAG \<noteq> 0 then
                   writeLineToCanonicalRequest path canonicalContext
                 else if dataLen (pService pParams) \<ge> S3_SERVICE_NAME_LEN \<and>
                         strncmp (pData (pService pParams)) S3_SERVICE_NAME S3_SERVICE_NAME_LEN = 0
                 then generateCanonicalURI (char_is_signed env) path False canonicalContext
                 else generateCanonicalURI (char_is_signed env) path True canonicalContext)
              else (returnStatus, canonicalContext));
          (returnStatus, canonicalContext) =
             (if returnStatus = SigV4Success then
                (if flags http AND SIGV4_HTTP_QUERY_IS_CANONICAL_FLAG \<noteq> 0 then
                   writeLineToCanonicalRequest (pData (pQuery http)) canonicalContext
                 else generateCanonicalQuery (libc_qsort env) (char_is_signed env)
                        (SIGV4_MAX_QUERY_PAIR_COUNT env) (pData (pQuery http)) canonicalContext)
              else (returnStatus, canonicalContext));
          (returnStatus, canonicalContext) =
             (if returnStatus = SigV4Success then
                (if flags http AND SIGV4_HTTP_HEADERS_ARE_CANONICAL_FLAG \<noteq> 0 then
                   writeLineToCanonicalRequest (pData (pHeaders http)) canonicalContext
                 else (returnStatus, canonicalContext))
              else (returnStatus, canonicalContext))
      in if returnStatus = SigV4Success then
           (let (returnStatus, hex, ci) =
                  completeHashAndHexEncode (pData (pPayload http))
                    (bufRemaining canonicalContext) ci
            in if returnStatus = SigV4Success
               then (returnStatus,
                     canonicalContext
                       \<lparr>buf := buf canonicalContext @ hex,
                        bufRemaining := size_sub (bufRemaining canonicalContext) (length hex)\<rparr>,
                     ci)
               else (returnStatus, canonicalContext, ci))
         else (returnStatus, canonicalContext, ci))"

text \<open>\<^verbatim>\<open>SigV4_GenerateHTTPAuthorization\<close>. The result is \<open>None\<close> when the function reads through
  a \<^verbatim>\<open>NULL\<close> struct pointer; otherwise it is the returned status, the output parameters
  after the call, and the processing buffer at the return (a local variable of the source,
  kept here to show what was computed). After the signing key the source hex-encodes
  \<open>hashDigestLen\<close> bytes at \<open>signingKey.pData\<close> to the start of the processing buffer and
  prints them; no statement of the function assigns to \<open>pAuthBuf\<close>, \<open>authBufLen\<close>,
  \<open>pSignature\<close> or \<open>signatureLen\<close>. The two \<^verbatim>\<open>printf\<close> calls are not part of the result.\<close>

definition SigV4_GenerateHTTPAuthorization ::
  "sigv4_env \<Rightarrow> 'h SigV4Parameters_t option \<Rightarrow> SigV4_outputs
   \<Rightarrow> (SigV4Status_t \<times> SigV4_outputs \<times> CanonicalContext_t) option" where
  "SigV4_GenerateHTTPAuthorization env pParamsIn outputs =
     do {
       pParams \<leftarrow> pParamsIn;
       http \<leftarrow> pHttpParameters pParams;
       ci \<leftarrow> pCryptoInterface pParams;
       let (returnStatus, canonicalContext, ci) = assembleCanonicalRequest env pParams http ci;
       (returnStatus, canonicalContext, ci) \<leftarrow>
         (if returnStatus = SigV4Success
          then writeStringToSign (SIGV4_PROCESSING_BUFFER_LENGTH env) pParams ci canonicalContext
          else Some (returnStatus, canonicalContext, ci));
       (returnStatus, signingKey, hmacContext, ci, remaining) \<leftarrow>
         (if returnStatus = SigV4Success
          then generateSigningKey pParams
                 \<lparr>hkey = replicate (SIGV4_HASH_MAX_BLOCK_LENGTH env) (CHR 0x00), keyLen = 0\<rparr>
                 ci (bufRemaining canonicalContext) (bufRemaining canonicalContext)
          else Some (returnStatus, [],
                     \<lparr>hkey = replicate (SIGV4_HASH_MAX_BLOCK_LENGTH env) (CHR 0x00), keyLen = 0\<rparr>,
                     ci, bufRemaining canonicalContext));
       let canonicalContext = canonicalContext\<lparr>bufRemaining := remaining\<rparr>;
       let (returnStatus, canonicalContext) =
         (if returnStatus = SigV4Success then
            (let (returnStatus, hex) =
                   lowercaseHexEncode (take (hashDigestLen ci) signingKey) 64
             in (returnStatus,
                 canonicalContext\<lparr>buf := hex @ drop (length hex) (buf canonicalContext)\<rparr>))
          else (returnStatus, canonicalContext));
       Some (returnStatus, outputs, canonicalContext)
     }"

text \<open>A toy hash for the concrete runs below: the context is the list of the bytes hashed so
  far, and the digest is two bytes that mix all of them by rotation and exclusive or. Every
  operation fails on a \<^verbatim>\<open>NULL\<close> context.\<close>

fun rotate_char :: "char \<Rightarrow> char" where
  "rotate_char (Char b0 b1 b2 b3 b4 b5 b6 b7) = Char b7 b0 b1 b2 b3 b4 b5 b6"

definition toy_digest :: "string \<Rightarrow> string" where
  "toy_digest s =
     [foldl (\<lambda>a c. xor_char (rotate_char a) c) (CHR 0x00) s,
      foldl (\<lambda>a c. rotate_char (rotate_char (rotate_char (xor_char a c)))) (CHR 0x5A) s]"

definition toy_hash :: "string SigV4CryptoInterface_t" where
  "toy_hash =
     \<lparr>hashInit = (\<lambda>h. case h of None \<Rightarrow> (- 1, None) | Some s \<Rightarrow> (0, Some [])),
      hashUpdate = (\<lambda>h input. case h of None \<Rightarrow> (- 1, None) | Some s \<Rightarrow> (0, Some (s @ input))),
      hashFinal = (\<lambda>h n. case h of None \<Rightarrow> (- 1, [], None)
                             | Some s \<Rightarrow> (0, toy_digest s, Some s)),
      hashBlockLen = 4,
      hashDigestLen = 2,
      pHashContext = Some []\<rparr>"

definition toy_env :: sigv4_env where
  "toy_env =
     \<lparr>SIGV4_PROCESSING_BUFFER_LENGTH = 128,
      SIGV4_MAX_QUERY_PAIR_COUNT = 5,
      SIGV4_HASH_MAX_BLOCK_LENGTH = 4,
      char_is_signed = False,
      libc_qsort = insertion_qsort,
      uninitialised_records = (\<lambda>i. \<lparr>key = None, val = None\<rparr>)\<rparr>"

text \<open>The request of the program's \<^verbatim>\<open>main\<close> function, with the given service name, path and
  access key id, no security token and no expiration, and the toy hash.\<close>

definition example_params ::
  "string \<Rightarrow> string \<Rightarrow> string option \<Rightarrow> string SigV4Parameters_t" where
  "example_params service path accessKey =
     \<lparr>pCredentials = Some \<lparr>pAccessKeyId = accessKey,
                           pSecretAccessKey = Some ''wJalrXUtnFEMI/K7MDENG+bPxRfiCYEXAMPLEKEY'',
                           pSecurityToken = None,
                           pExpiration = None\<rparr>,
      pDateIso8601 = Some ''20150830T123600Z'',
      pAlgorithm = None,
      pRegion = Some ''us-east-1'',
      pService = Some service,
      pCryptoInterface = Some toy_hash,
      pHttpParameters =
        Some \<lparr>pHttpMethod = Some ''GET'',
              flags = 0,
              pPath = Some path,
              pQuery = Some ''Action=ListUsers&Version=2010-05-08'',
              pHeaders = Some ''Host: iam.amazonaws.com'',
              pPayload = None\<rparr>\<rparr>"

definition no_outputs :: SigV4_outputs where
  "no_outputs = \<lparr>pAuthBuf = Some (replicate 8 (CHR ''?'')), authBufLen = 8,
                 pSignature = None, signatureLen = 0\<rparr>"

section \<open>Theorems: date engine\<close>

lemma smod_nonneg: "(0::int) \<le> a \<Longrightarrow> 0 < b \<Longrightarrow> a smod b = a mod b"
  by (simp add: smod_int_alt_def sgn_if)








section \<open>Theorems: URI encoder\<close>

lemma encodeURI_loop_failed:
  "returnStatus \<noteq> SigV4Success \<Longrightarrow>
   encodeURI_loop cs es de cap pUri returnStatus out = (returnStatus, out)"
  by (cases pUri) simp_all

lemma encodeURI_loop_result:
  assumes "cap \<le> SIZE_MAX" and "length out \<le> cap"
  shows "(length out + length (concat (map (encodeByte cs es de) (beforeNul pUri))) \<le> cap \<longrightarrow>
            encodeURI_loop cs es de cap pUri SigV4Success out =
              (SigV4Success, out @ concat (map (encodeByte cs es de) (beforeNul pUri)))) \<and>
         (\<not> length out + length (concat (map (encodeByte cs es de) (beforeNul pUri))) \<le> cap \<longrightarrow>
            fst (encodeURI_loop cs es de cap pUri SigV4Success out) = SigV4InsufficientMemory)"
  using assms
proof (induction pUri arbitrary: out)
  case Nil
  then show ?case by (simp add: beforeNul_def)
next
  case (Cons c pUri)
  show ?case
  proof (cases "c = CHR 0x00")
    case True
    with Cons.prems show ?thesis by (simp add: beforeNul_def)
  next
    case False
    let ?e = "encodeByte cs es de c"
    have bn: "beforeNul (c # pUri) = c # beforeNul pUri"
      using False by (simp add: beforeNul_def)
    show ?thesis
    proof (cases "length out + length ?e \<le> cap")
      case True
      have step: "encodeURI_loop cs es de cap (c # pUri) SigV4Success out =
                  encodeURI_loop cs es de cap pUri SigV4Success (out @ ?e)"
        using False True Cons.prems
        by (auto simp: encodeByte_def encodeURI_step_def Let_def split: if_splits)
      have "length (out @ ?e) \<le> cap" using True by simp
      from Cons.IH [OF Cons.prems(1) this]
      show ?thesis unfolding step bn by (simp add: add.assoc del: encodeURI_loop.simps)
    next
      case over: False
      have "fst (encodeURI_loop cs es de cap (c # pUri) SigV4Success out) = SigV4InsufficientMemory"
        using False over Cons.prems
        by (auto simp: encodeByte_def encodeURI_step_def Let_def encodeURI_loop_failed split: if_splits)
      then show ?thesis
        using over bn by (simp del: encodeURI_loop.simps)
    qed
  qed
qed

lemma encodeURI_loop_beforeNul:
  "encodeURI_loop cs es de cap (beforeNul pUri) st out = encodeURI_loop cs es de cap pUri st out"
  by (induction pUri arbitrary: st out) (simp_all add: beforeNul_def Let_def split: prod.splits)

text \<open>Claim C9, as amended. \<^verbatim>\<open>encodeURI\<close> encodes the bytes of its input that come before
  the first zero byte, and all of them when there is none: a zero byte inside the input ends
  the loop, and neither it nor any byte after it is encoded. The function returns
  \<open>SigV4Success\<close> exactly when the encodings of those bytes fit into the capacity, and then
  the output is their concatenation, in order.\<close>

theorem encodeURI_stops_at_zero_byte:
  assumes "cap \<le> SIZE_MAX"
  shows "encodeURI cs pUri cap es de = encodeURI cs (beforeNul pUri) cap es de
       \<and> (fst (encodeURI cs pUri cap es de) = SigV4Success \<longleftrightarrow>
            length (concat (map (encodeByte cs es de) (beforeNul pUri))) \<le> cap)
       \<and> (fst (encodeURI cs pUri cap es de) = SigV4Success \<longrightarrow>
            snd (encodeURI cs pUri cap es de) = concat (map (encodeByte cs es de) (beforeNul pUri)))"
  using encodeURI_loop_result [OF assms, of "[]" cs es de pUri]
  by (auto simp: encodeURI_def encodeURI_loop_beforeNul simp del: encodeURI_loop.simps)

text \<open>Claim C9 as stated fails: on the three bytes \<^verbatim>\<open>a\<close>, \<open>0x00\<close>, \<^verbatim>\<open>b\<close> the output is
  \<^verbatim>\<open>a\<close>, not \<^verbatim>\<open>a%00b\<close>.\<close>

theorem encodeURI_zero_byte_counterexample:
  "encodeURI False [CHR ''a'', CHR 0x00, CHR ''b''] 16 False False = (SigV4Success, ''a'')
   \<and> encodeURI False [CHR ''a'', CHR 0x00, CHR ''b''] 16 False False \<noteq> (SigV4Success, ''a%00b'')"
  by (simp add: encodeURI_def encodeURI_step_def isalnum_def)

theorem encodeURI_stops_at_zero_byte_witness:
  "(16::nat) \<le> SIZE_MAX
   \<and> fst (encodeURI False [CHR ''a'', CHR '' '', CHR 0x00, CHR ''b''] 16 False False) = SigV4Success
   \<and> snd (encodeURI False [CHR ''a'', CHR '' '', CHR 0x00, CHR ''b''] 16 False False) = ''a%20''"
proof -
  have le: "(16::nat) \<le> SIZE_MAX"
    by (simp add: SIZE_MAX_def)
  have E: "concat (map (encodeByte False False False)
             (beforeNul [CHR ''a'', CHR '' '', CHR 0x00, CHR ''b''])) = ''a%20''"
    by code_simp
  note t = encodeURI_stops_at_zero_byte
             [OF le, of False "[CHR ''a'', CHR '' '', CHR 0x00, CHR ''b'']" False False]
  have "fst (encodeURI False [CHR ''a'', CHR '' '', CHR 0x00, CHR ''b''] 16 False False)
          = SigV4Success"
    using t [THEN conjunct2, THEN conjunct1] unfolding E by simp
  moreover from this
  have "snd (encodeURI False [CHR ''a'', CHR '' '', CHR 0x00, CHR ''b''] 16 False False) = ''a%20''"
    using t [THEN conjunct2, THEN conjunct2] unfolding E by blast
  ultimately show ?thesis using le by blast
qed


section \<open>Theorems: canonical query\<close>

text \<open>Claim C8 (the code departs from it). The parameter \<^verbatim>\<open>=v\<close> yields one record, with an
  empty key and the value \<^verbatim>\<open>v\<close>, which the assertions of \<^verbatim>\<open>cmpQueryFieldValue\<close> and
  \<^verbatim>\<open>writeCanonicalQueryParameters\<close> exclude; after an empty segment, as in \<^verbatim>\<open>a=1&&b=2\<close>, the
  next key begins with the separator (\<^verbatim>\<open>&b\<close>); and a parameter with \<^verbatim>\<open>=\<close> and an empty
  value yields no record of its own (\<^verbatim>\<open>a=\<close> yields none, \<^verbatim>\<open>a=&b=1\<close> yields the one record
  with key \<^verbatim>\<open>a\<close> and value \<^verbatim>\<open>&b=1\<close>).\<close>

theorem query_split_keeps_empty_key:
  "fst (setQueryStringFieldsAndValues 5 ''=v'' ctx) = 1
   \<and> key (pQueryLoc (snd (setQueryStringFieldsAndValues 5 ''=v'' ctx)) 0) = Some []
   \<and> val (pQueryLoc (snd (setQueryStringFieldsAndValues 5 ''=v'' ctx)) 0) = Some ''v''
   \<and> emptySigV4String (key (pQueryLoc (snd (setQueryStringFieldsAndValues 5 ''=v'' ctx)) 0))
   \<and> fst (setQueryStringFieldsAndValues 5 ''a=1&&b=2'' ctx) = 2
   \<and> key (pQueryLoc (snd (setQueryStringFieldsAndValues 5 ''a=1&&b=2'' ctx)) 1) = Some ''&b''
   \<and> fst (setQueryStringFieldsAndValues 5 ''a='' ctx) = 0
   \<and> fst (setQueryStringFieldsAndValues 5 ''a=&b=1'' ctx) = 1
   \<and> val (pQueryLoc (snd (setQueryStringFieldsAndValues 5 ''a=&b=1'' ctx)) 0) = Some ''&b=1''"
  by (simp add: setQueryStringFieldsAndValues_def setQuery_step_def slice_def Let_def
        emptySigV4String_def dataLen_def pData_def)

lemma strncmp_nul_free:
  assumes "CHR 0x00 \<notin> set a" and "CHR 0x00 \<notin> set b" and "n \<le> length a" and "n \<le> length b"
  shows "sgn (strncmp a b n) = unsigned_byte_order (take n a) (take n b)"
  using assms
proof (induction a arbitrary: b n)
  case Nil
  then show ?case by simp
next
  case (Cons x a)
  show ?case
  proof (cases n)
    case 0
    then show ?thesis by simp
  next
    case (Suc m)
    with Cons.prems obtain y b' where b: "b = y # b'" by (cases b) auto
    have inj: "(of_char x :: nat) = of_char y \<longleftrightarrow> x = y" by simp
    show ?thesis
    proof (cases "x = y")
      case True
      with Cons.prems Suc b have "x \<noteq> CHR 0x00" by auto
      with True Cons.IH [of b' m] Cons.prems Suc b show ?thesis by simp
    next
      case False
      then have "(of_char x :: nat) \<noteq> of_char y" using inj by blast
      with False Suc b show ?thesis by (auto simp: sgn_if)
    qed
  qed
qed

lemma unsigned_byte_order_range: "unsigned_byte_order a b \<in> {- 1, 0, 1}"
  by (induction a b rule: unsigned_byte_order.induct) auto

lemma unsigned_byte_order_eq_0:
  "length a = length b \<Longrightarrow> unsigned_byte_order a b = 0 \<longleftrightarrow> a = b"
proof (induction a b rule: unsigned_byte_order.induct)
  case (1 a as b bs)
  have "(of_char a :: nat) = of_char b \<longleftrightarrow> a = b" by simp
  with 1 show ?case by (auto simp: neq_iff)
qed auto

lemma strncmp_eq_0_nul_free:
  assumes "CHR 0x00 \<notin> set a" and "CHR 0x00 \<notin> set b" and "n \<le> length a" and "n \<le> length b"
  shows "strncmp a b n = 0 \<longleftrightarrow> unsigned_byte_order (take n a) (take n b) = 0"
  using strncmp_nul_free [OF assms] by (auto simp: sgn_if split: if_splits)

lemma cmpQueryFieldValue_spec:
  assumes "nul_free a" and "nul_free b"
  shows "sgn (cmpQueryFieldValue a b) = spec_record_order a b"
proof -
  let ?ka = "pData (key a)" and ?kb = "pData (key b)" and ?va = "pData (val a)" and ?vb = "pData (val b)"
  let ?m = "min (length ?ka) (length ?kb)" and ?mv = "min (length ?va) (length ?vb)"
  define ck where "ck = strncmp ?ka ?kb ?m"
  define cv where "cv = strncmp ?va ?vb ?mv"
  define uk where "uk = unsigned_byte_order (take ?m ?ka) (take ?m ?kb)"
  define uv where "uv = unsigned_byte_order (take ?mv ?va) (take ?mv ?vb)"
  have k: "sgn ck = uk"
    unfolding ck_def uk_def using assms by (intro strncmp_nul_free) (auto simp: nul_free_def)
  have v: "sgn cv = uv"
    unfolding cv_def uv_def using assms by (intro strncmp_nul_free) (auto simp: nul_free_def)
  have m1: "(if length ?ka < length ?kb then length ?ka else length ?kb) = ?m" by auto
  have m2: "(if length ?va < length ?vb then length ?va else length ?vb) = ?mv" by auto
  show ?thesis
    unfolding cmpQueryFieldValue_def spec_record_order_def spec_string_order_def dataLen_def
      m1 m2 Let_def ck_def [symmetric] cv_def [symmetric] uk_def [symmetric] uv_def [symmetric]
    using k v by (auto simp: sgn_if split: if_splits)
qed


lemma spec_string_order_eq_0: "spec_string_order a b = 0 \<longleftrightarrow> a = b"
proof
  assume h: "spec_string_order a b = 0"
  then have l: "length a = length b"
    by (auto simp: spec_string_order_def Let_def split: if_splits)
  with h have "unsigned_byte_order a b = 0"
    by (auto simp: spec_string_order_def Let_def split: if_splits)
  with l show "a = b" by (simp add: unsigned_byte_order_eq_0)
next
  assume "a = b"
  then show "spec_string_order a b = 0"
    by (simp add: spec_string_order_def unsigned_byte_order_eq_0)
qed

lemma spec_record_order_eq_0:
  "spec_record_order a b = 0 \<longleftrightarrow>
     pData (key a) = pData (key b) \<and> pData (val a) = pData (val b)"
  by (auto simp: spec_record_order_def Let_def spec_string_order_eq_0)

lemma set_slice: "slice q start len = Some bs \<Longrightarrow> set bs \<subseteq> set q"
  by (auto simp: slice_def dest: in_set_takeD in_set_dropD)

lemma pData_slice: "CHR 0x00 \<notin> set q \<Longrightarrow> CHR 0x00 \<notin> set (pData (slice q start len))"
  by (auto simp: slice_def pData_def dest: in_set_takeD in_set_dropD)

lemma setQuery_step_inv:
  assumes "CHR 0x00 \<notin> set q" and "scan_inv s"
  shows "scan_inv (setQuery_step q i s)"
  using assms pData_slice [OF assms(1)]
  by (auto simp: setQuery_step_def scan_inv_def Let_def nul_free_def less_Suc_eq pData_def [of None])

lemma setQuery_loop_inv:
  assumes "CHR 0x00 \<notin> set q" and "scan_inv s"
  shows "scan_inv (setQuery_loop m q i s)"
  using assms
proof (induction m q i s rule: setQuery_loop.induct)
  case (1 m q i s)
  show ?case
  proof (cases "i < length q")
    case True
    have inv': "scan_inv (setQuery_step q i s)"
      using 1 by (simp add: setQuery_step_inv)
    show ?thesis
    proof (cases "qs_numberOfParameters (setQuery_step q i s) > m")
      case over: True
      with True inv' show ?thesis by (subst setQuery_loop.simps) (simp add: Let_def)
    next
      case False
      with "1.IH" [OF True refl False "1.prems"(1) inv'] True
      show ?thesis by (subst setQuery_loop.simps) (simp add: Let_def)
    qed
  next
    case False
    with 1 show ?thesis by (subst setQuery_loop.simps) simp
  qed
qed

lemma split_nul_free:
  assumes "CHR 0x00 \<notin> set q"
    and "setQueryStringFieldsAndValues m q ctx = (n, ctx')"
    and "j < n"
  shows "nul_free (pQueryLoc ctx' j)"
proof -
  let ?s0 = "\<lparr>qs_numberOfParameters = 0, qs_startOfFieldOrValue = 0, qs_fieldHasValue = False,
              qs_pQueryLoc = pQueryLoc ctx\<rparr>"
  have "scan_inv ?s0" by (simp add: scan_inv_def)
  from setQuery_loop_inv [OF assms(1) this, of m 0] assms(2,3)
  show ?thesis
    by (auto simp: setQueryStringFieldsAndValues_def Let_def scan_inv_def simp del: setQuery_loop.simps)
qed


lemma encodeURI_ok:
  assumes "cap \<le> SIZE_MAX" and "encodeURI cs u cap es de = (SigV4Success, k)"
  shows "k = concat (map (encodeByte cs es de) (beforeNul u)) \<and> length k \<le> cap"
  using encodeURI_stops_at_zero_byte [OF assms(1), of cs u es de] assms(2) by auto

lemma writeQueryParameter_ok:
  assumes "rem \<le> SIZE_MAX"
    and "writeQueryParameter cs r isLast rem = (SigV4Success, out, rem')"
  shows "out = parameterText cs r @ (if isLast then [] else ''&'') \<and> rem' \<le> rem"
proof -
  obtain st k where k: "encodeURI cs (pData (key r)) rem True False = (st, k)"
    by (cases "encodeURI cs (pData (key r)) rem True False")
  have st: "st = SigV4Success"
    using assms(2) k by (auto simp: writeQueryParameter_def Let_def split: if_splits prod.splits)
  note kk = encodeURI_ok [OF assms(1) k [unfolded st]]
  show ?thesis
  proof (cases "dataLen (val r) > 0 \<and> val r \<noteq> None")
    case False
    then have nv: "\<not> dataLen (val r) > 0"
      by (auto simp: dataLen_def pData_def)
    from assms(2) k st False kk nv show ?thesis
      by (auto simp: writeQueryParameter_def Let_def parameterText_def split: if_splits)
  next
    case True
    have r1: "\<not> rem - length k < 1"
      using assms(2) k st True
      by (auto simp: writeQueryParameter_def Let_def split: if_splits prod.splits)
    obtain st2 v where v: "encodeURI cs (pData (val r)) (rem - length k - 1) True True = (st2, v)"
      by (cases "encodeURI cs (pData (val r)) (rem - length k - 1) True True")
    have st2: "st2 = SigV4Success"
      using assms(2) k st True r1 v
      by (auto simp: writeQueryParameter_def Let_def split: if_splits prod.splits)
    have "rem - length k - 1 \<le> SIZE_MAX" using assms(1) by simp
    note vv = encodeURI_ok [OF this v [unfolded st2]]
    from assms(2) k st True r1 v st2 kk vv show ?thesis
      by (auto simp: writeQueryParameter_def Let_def parameterText_def split: if_splits)
  qed
qed

lemma writeQueryParameters_loop_ok:
  assumes "bufRemaining ctx \<le> SIZE_MAX"
    and "writeQueryParameters_loop cs rs ctx = (SigV4Success, ctx')"
  shows "buf ctx' = buf ctx @ canonicalQueryText cs rs \<and> pQueryLoc ctx' = pQueryLoc ctx"
  using assms
proof (induction rs arbitrary: ctx)
  case Nil
  then show ?case by simp
next
  case (Cons r rs)
  obtain st out rem' where w: "writeQueryParameter cs r (rs = []) (bufRemaining ctx) = (st, out, rem')"
    by (cases "writeQueryParameter cs r (rs = []) (bufRemaining ctx)")
  have st: "st = SigV4Success"
    using Cons.prems(2) w by (auto split: if_splits)
  note ok = writeQueryParameter_ok [OF Cons.prems(1) w [unfolded st]]
  let ?ctx = "ctx\<lparr>buf := buf ctx @ out, bufRemaining := rem'\<rparr>"
  have rec: "writeQueryParameters_loop cs rs ?ctx = (SigV4Success, ctx')"
    using Cons.prems(2) w st by simp
  have "bufRemaining ?ctx \<le> SIZE_MAX" using ok Cons.prems(1) by simp
  from Cons.IH [OF this rec] ok show ?case
    by (cases rs) auto
qed


lemma sorted_wrt_unique:
  assumes "mset ys = mset xs" and "sorted_wrt R ys" and "sorted_wrt R xs"
    and "\<And>a b. a \<in> set xs \<Longrightarrow> b \<in> set xs \<Longrightarrow> R a b \<Longrightarrow> R b a \<Longrightarrow> a = b"
  shows "ys = xs"
  using assms
proof (induction xs arbitrary: ys)
  case Nil
  then show ?case by simp
next
  case (Cons x xs)
  from Cons.prems(1) obtain y ys' where ys: "ys = y # ys'"
    by (cases ys) auto
  have sets: "set ys = set (x # xs)"
    using Cons.prems(1) by (metis set_mset_mset)
  have xy: "x = y"
  proof (rule ccontr)
    assume ne: "x \<noteq> y"
    have "x \<in> set ys'" using sets ne ys by auto
    then have 1: "R y x" using Cons.prems(2) ys by auto
    have "y \<in> set xs" using sets ne ys by auto
    then have 2: "R x y" using Cons.prems(3) by auto
    have "y \<in> set (x # xs)" "x \<in> set (x # xs)" using sets ys by auto
    from Cons.prems(4) [OF this(2) this(1) 2 1] ne show False by simp
  qed
  have "mset ys' = mset xs" using Cons.prems(1) ys xy by simp
  moreover have "sorted_wrt R ys'" using Cons.prems(2) ys by simp
  moreover have "sorted_wrt R xs" using Cons.prems(3) by simp
  ultimately have "ys' = xs"
    using Cons.prems(4) by (intro Cons.IH) auto
  with ys xy show ?case by simp
qed

lemma queryRecords_nul_free:
  assumes "CHR 0x00 \<notin> set q" and "r \<in> set (queryRecords m q ctx)"
  shows "nul_free r"
proof -
  obtain n ctx1 where sp: "setQueryStringFieldsAndValues m q ctx = (n, ctx1)"
    by (cases "setQueryStringFieldsAndValues m q ctx")
  from assms(2) sp obtain j where "j < n" "r = pQueryLoc ctx1 j"
    by (auto simp: queryRecords_def)
  with split_nul_free [OF assms(1) sp] show ?thesis by simp
qed

lemma generateCanonicalQuery_ok:
  assumes "bufRemaining ctx \<le> SIZE_MAX"
    and "generateCanonicalQuery qsort cs m q ctx = (SigV4Success, ctx')"
    and "length (qsort cmpQueryFieldValue (queryRecords m q ctx)) = length (queryRecords m q ctx)"
  shows "buf ctx' = buf ctx @
           canonicalQueryText cs (qsort cmpQueryFieldValue (queryRecords m q ctx)) @ [CHR 0x0A]"
proof -
  obtain n ctx1 where sp: "setQueryStringFieldsAndValues m q ctx = (n, ctx1)"
    by (cases "setQueryStringFieldsAndValues m q ctx")
  have c1: "buf ctx1 = buf ctx" "bufRemaining ctx1 = bufRemaining ctx"
    using sp by (auto simp: setQueryStringFieldsAndValues_def Let_def)
  let ?recs = "map (pQueryLoc ctx1) [0..<n]"
  let ?srt = "qsort cmpQueryFieldValue ?recs"
  have qr: "queryRecords m q ctx = ?recs"
    using sp by (simp add: queryRecords_def)
  have len: "length ?srt = n" using assms(3) qr by simp
  let ?ctx2 = "ctx1\<lparr>pQueryLoc := (\<lambda>i. if i < n then ?srt ! i else pQueryLoc ctx1 i)\<rparr>"
  have recs2: "map (pQueryLoc ?ctx2) [0..<n] = ?srt"
    using len by (auto intro: nth_equalityI)
  obtain st ctx3 where w: "writeCanonicalQueryParameters cs ?ctx2 n = (st, ctx3)"
    by (cases "writeCanonicalQueryParameters cs ?ctx2 n")
  from assms(2) sp w have st: "st = SigV4Success" and n: "\<not> n > m"
    and ctx': "ctx' = ctx3\<lparr>buf := buf ctx3 @ [CHR 0x0A], bufRemaining := size_sub (bufRemaining ctx3) 1\<rparr>"
    by (auto simp: generateCanonicalQuery_def Let_def split: if_splits)
  have "writeQueryParameters_loop cs ?srt ?ctx2 = (SigV4Success, ctx3)"
    using w st recs2 by (simp add: writeCanonicalQueryParameters_def)
  moreover have "bufRemaining ?ctx2 \<le> SIZE_MAX" using assms(1) c1 by simp
  ultimately have "buf ctx3 = buf ?ctx2 @ canonicalQueryText cs ?srt"
    using writeQueryParameters_loop_ok by blast
  with ctx' c1 qr show ?thesis by simp
qed


lemma kv_update_both [simp]: "r\<lparr>key := k, val := v\<rparr> = \<lparr>key = k, val = v\<rparr>"
  by (cases r) simp

lemma example_records:
  "queryRecords 5 ''b=2&a=1&b=1'' \<lparr>buf = [], bufRemaining = 64, pQueryLoc = loc\<rparr> =
     [\<lparr>key = Some ''b'', val = Some ''2''\<rparr>, \<lparr>key = Some ''a'', val = Some ''1''\<rparr>,
      \<lparr>key = Some ''b'', val = Some ''1''\<rparr>]"
  by (simp add: queryRecords_def setQueryStringFieldsAndValues_def setQuery_step_def slice_def
        Let_def upt_rec)

lemma example_sorted:
  assumes "mset (qsort cmpQueryFieldValue
            [\<lparr>key = Some ''b'', val = Some ''2''\<rparr>, \<lparr>key = Some ''a'', val = Some ''1''\<rparr>,
             \<lparr>key = Some ''b'', val = Some ''1''\<rparr>]) =
           mset [\<lparr>key = Some ''b'', val = Some ''2''\<rparr>, \<lparr>key = Some ''a'', val = Some ''1''\<rparr>,
             \<lparr>key = Some ''b'', val = Some ''1''\<rparr>]"
    and "sorted_wrt (\<lambda>a b. cmpQueryFieldValue a b \<le> 0) (qsort cmpQueryFieldValue
            [\<lparr>key = Some ''b'', val = Some ''2''\<rparr>, \<lparr>key = Some ''a'', val = Some ''1''\<rparr>,
             \<lparr>key = Some ''b'', val = Some ''1''\<rparr>])"
  shows "qsort cmpQueryFieldValue
            [\<lparr>key = Some ''b'', val = Some ''2''\<rparr>, \<lparr>key = Some ''a'', val = Some ''1''\<rparr>,
             \<lparr>key = Some ''b'', val = Some ''1''\<rparr>] =
         [\<lparr>key = Some ''a'', val = Some ''1''\<rparr>, \<lparr>key = Some ''b'', val = Some ''1''\<rparr>,
          \<lparr>key = Some ''b'', val = Some ''2''\<rparr>]"
proof (rule sorted_wrt_unique [where R = "\<lambda>a b. cmpQueryFieldValue a b \<le> 0"])
  show "mset (qsort cmpQueryFieldValue
            [\<lparr>key = Some ''b'', val = Some ''2''\<rparr>, \<lparr>key = Some ''a'', val = Some ''1''\<rparr>,
             \<lparr>key = Some ''b'', val = Some ''1''\<rparr>]) =
        mset [\<lparr>key = Some ''a'', val = Some ''1''\<rparr>, \<lparr>key = Some ''b'', val = Some ''1''\<rparr>,
          \<lparr>key = Some ''b'', val = Some ''2''\<rparr>]"
    using assms(1) by (simp add: ac_simps)
  show "sorted_wrt (\<lambda>a b. cmpQueryFieldValue a b \<le> 0) (qsort cmpQueryFieldValue
            [\<lparr>key = Some ''b'', val = Some ''2''\<rparr>, \<lparr>key = Some ''a'', val = Some ''1''\<rparr>,
             \<lparr>key = Some ''b'', val = Some ''1''\<rparr>])"
    by (fact assms(2))
  show "sorted_wrt (\<lambda>a b. cmpQueryFieldValue a b \<le> 0)
         [\<lparr>key = Some ''a'', val = Some ''1''\<rparr>, \<lparr>key = Some ''b'', val = Some ''1''\<rparr>,
          \<lparr>key = Some ''b'', val = Some ''2''\<rparr>]"
    by (simp add: cmpQueryFieldValue_def dataLen_def pData_def)
  show "a = b"
    if "a \<in> set [\<lparr>key = Some ''a'', val = Some ''1''\<rparr>, \<lparr>key = Some ''b'', val = Some ''1''\<rparr>,
          \<lparr>key = Some ''b'', val = Some ''2''\<rparr>]"
      and "b \<in> set [\<lparr>key = Some ''a'', val = Some ''1''\<rparr>, \<lparr>key = Some ''b'', val = Some ''1''\<rparr>,
          \<lparr>key = Some ''b'', val = Some ''2''\<rparr>]"
      and "cmpQueryFieldValue a b \<le> 0" and "cmpQueryFieldValue b a \<le> 0" for a b
    using that by (auto simp: cmpQueryFieldValue_def dataLen_def pData_def)
qed


lemma example_query:
  assumes "mset (qsort cmpQueryFieldValue
            [\<lparr>key = Some ''b'', val = Some ''2''\<rparr>, \<lparr>key = Some ''a'', val = Some ''1''\<rparr>,
             \<lparr>key = Some ''b'', val = Some ''1''\<rparr>]) =
           mset [\<lparr>key = Some ''b'', val = Some ''2''\<rparr>, \<lparr>key = Some ''a'', val = Some ''1''\<rparr>,
             \<lparr>key = Some ''b'', val = Some ''1''\<rparr>]"
    and "sorted_wrt (\<lambda>a b. cmpQueryFieldValue a b \<le> 0) (qsort cmpQueryFieldValue
            [\<lparr>key = Some ''b'', val = Some ''2''\<rparr>, \<lparr>key = Some ''a'', val = Some ''1''\<rparr>,
             \<lparr>key = Some ''b'', val = Some ''1''\<rparr>])"
  shows "fst (generateCanonicalQuery qsort cs 5 ''b=2&a=1&b=1''
                \<lparr>buf = [], bufRemaining = 64, pQueryLoc = loc\<rparr>) = SigV4Success
       \<and> buf (snd (generateCanonicalQuery qsort cs 5 ''b=2&a=1&b=1''
                \<lparr>buf = [], bufRemaining = 64, pQueryLoc = loc\<rparr>)) = ''a=1&b=1&b=2'' @ [CHR 0x0A]"
proof -
  have sp: "setQueryStringFieldsAndValues 5 ''b=2&a=1&b=1'' \<lparr>buf = [], bufRemaining = 64, pQueryLoc = loc\<rparr>
            = (3, \<lparr>buf = [], bufRemaining = 64, pQueryLoc = loc
                  (0 := \<lparr>key = Some ''b'', val = Some ''2''\<rparr>,
                   Suc 0 := \<lparr>key = Some ''a'', val = Some ''1''\<rparr>,
                   Suc (Suc 0) := \<lparr>key = Some ''b'', val = Some ''1''\<rparr>)\<rparr>)"
    by (simp add: setQueryStringFieldsAndValues_def setQuery_step_def slice_def Let_def)
  have up: "[0..<3] = [0, Suc 0, Suc (Suc 0)]" by (simp add: upt_rec)
  have enc: "encodeURI cs ''a'' n True d = (if 1 \<le> n then (SigV4Success, ''a'') else (SigV4InsufficientMemory, ''a''))"
            "encodeURI cs ''b'' n True d = (if 1 \<le> n then (SigV4Success, ''b'') else (SigV4InsufficientMemory, ''b''))"
            "encodeURI cs ''1'' n True d = (if 1 \<le> n then (SigV4Success, ''1'') else (SigV4InsufficientMemory, ''1''))"
            "encodeURI cs ''2'' n True d = (if 1 \<le> n then (SigV4Success, ''2'') else (SigV4InsufficientMemory, ''2''))"
    for n d
    by (auto simp: encodeURI_def encodeURI_step_def isalnum_def)
  show ?thesis
    by (simp add: generateCanonicalQuery_def sp up example_sorted [of qsort, OF assms]
          writeCanonicalQueryParameters_def writeQueryParameter_def enc dataLen_def pData_def
          size_sub_def)
qed

text \<open>Claim C7, as amended. For a query without a zero byte, and a \<^verbatim>\<open>qsort\<close> that returns a
  permutation of the records in nondecreasing order of \<^verbatim>\<open>cmpQueryFieldValue\<close> (what the C
  standard asks of it), a successful \<^verbatim>\<open>generateCanonicalQuery\<close> appends to the buffer the
  records in nondecreasing order of the specification's order (unsigned byte comparison of
  the keys over the shorter length, then the shorter key first, then the same on the
  values), joined by \<^verbatim>\<open>&\<close> and ended by a line feed. Two records tie in that order only if
  their keys and their values are the same bytes. For the query \<^verbatim>\<open>b=2&a=1&b=1\<close> the text
  is \<^verbatim>\<open>a=1&b=1&b=2\<close> and the line feed.\<close>

theorem canonical_query_sorted:
  assumes "CHR 0x00 \<notin> set query"
    and "bufRemaining ctx \<le> SIZE_MAX"
    and "mset (qsort cmpQueryFieldValue (queryRecords m query ctx)) = mset (queryRecords m query ctx)"
    and "sorted_wrt (\<lambda>a b. cmpQueryFieldValue a b \<le> 0)
           (qsort cmpQueryFieldValue (queryRecords m query ctx))"
    and "generateCanonicalQuery qsort cs m query ctx = (SigV4Success, ctx')"
  shows "sorted_wrt (\<lambda>a b. spec_record_order a b \<le> 0)
           (qsort cmpQueryFieldValue (queryRecords m query ctx))
       \<and> buf ctx' = buf ctx @
           canonicalQueryText cs (qsort cmpQueryFieldValue (queryRecords m query ctx)) @ [CHR 0x0A]
       \<and> (\<forall>a b. spec_record_order a b = 0 \<longleftrightarrow>
                 pData (key a) = pData (key b) \<and> pData (val a) = pData (val b))
       \<and> (mset (qsort cmpQueryFieldValue
            [\<lparr>key = Some ''b'', val = Some ''2''\<rparr>, \<lparr>key = Some ''a'', val = Some ''1''\<rparr>,
             \<lparr>key = Some ''b'', val = Some ''1''\<rparr>]) =
           mset [\<lparr>key = Some ''b'', val = Some ''2''\<rparr>, \<lparr>key = Some ''a'', val = Some ''1''\<rparr>,
             \<lparr>key = Some ''b'', val = Some ''1''\<rparr>] \<longrightarrow>
          sorted_wrt (\<lambda>a b. cmpQueryFieldValue a b \<le> 0) (qsort cmpQueryFieldValue
            [\<lparr>key = Some ''b'', val = Some ''2''\<rparr>, \<lparr>key = Some ''a'', val = Some ''1''\<rparr>,
             \<lparr>key = Some ''b'', val = Some ''1''\<rparr>]) \<longrightarrow>
          fst (generateCanonicalQuery qsort cs 5 ''b=2&a=1&b=1''
                \<lparr>buf = [], bufRemaining = 64, pQueryLoc = loc\<rparr>) = SigV4Success
          \<and> buf (snd (generateCanonicalQuery qsort cs 5 ''b=2&a=1&b=1''
                \<lparr>buf = [], bufRemaining = 64, pQueryLoc = loc\<rparr>)) = ''a=1&b=1&b=2'' @ [CHR 0x0A])"
proof -
  let ?recs = "queryRecords m query ctx"
  let ?srt = "qsort cmpQueryFieldValue ?recs"
  have set_eq: "set ?srt = set ?recs"
    using assms(3) by (metis set_mset_mset)
  have nf: "nul_free r" if "r \<in> set ?srt" for r
    using that set_eq queryRecords_nul_free [OF assms(1)] by blast
  have le: "spec_record_order a b \<le> 0"
    if "a \<in> set ?srt" and "b \<in> set ?srt" and "cmpQueryFieldValue a b \<le> 0" for a b
  proof -
    have "sgn (cmpQueryFieldValue a b) = spec_record_order a b"
      using that nf by (intro cmpQueryFieldValue_spec) auto
    with that(3) show ?thesis by (auto simp: sgn_if split: if_splits)
  qed
  have 1: "sorted_wrt (\<lambda>a b. spec_record_order a b \<le> 0) ?srt"
    using assms(4) le by (rule sorted_wrt_mono_rel [rotated]) 
  have "length ?srt = length ?recs"
    using assms(3) by (metis size_mset)
  from generateCanonicalQuery_ok [OF assms(2) assms(5) this]
  have 2: "buf ctx' = buf ctx @ canonicalQueryText cs ?srt @ [CHR 0x0A]" .
  show ?thesis
    using 1 2 spec_record_order_eq_0 example_query [of qsort cs loc] by blast
qed


theorem canonical_query_sorted_witness:
  "CHR 0x00 \<notin> set ''b=2&a=1&b=1''
   \<and> bufRemaining \<lparr>buf = [], bufRemaining = 64, pQueryLoc = (\<lambda>i. \<lparr>key = None, val = None\<rparr>)\<rparr> \<le> SIZE_MAX
   \<and> insertion_qsort cmpQueryFieldValue
         (queryRecords 5 ''b=2&a=1&b=1''
            \<lparr>buf = [], bufRemaining = 64, pQueryLoc = (\<lambda>i. \<lparr>key = None, val = None\<rparr>)\<rparr>)
       = [\<lparr>key = Some ''a'', val = Some ''1''\<rparr>, \<lparr>key = Some ''b'', val = Some ''1''\<rparr>,
          \<lparr>key = Some ''b'', val = Some ''2''\<rparr>]
   \<and> fst (generateCanonicalQuery insertion_qsort False 5 ''b=2&a=1&b=1''
            \<lparr>buf = [], bufRemaining = 64, pQueryLoc = (\<lambda>i. \<lparr>key = None, val = None\<rparr>)\<rparr>)
       = SigV4Success
   \<and> sorted_wrt (\<lambda>a b. spec_record_order a b \<le> 0)
         [\<lparr>key = Some ''a'', val = Some ''1''\<rparr>, \<lparr>key = Some ''b'', val = Some ''1''\<rparr>,
          \<lparr>key = Some ''b'', val = Some ''2''\<rparr>]
   \<and> buf (snd (generateCanonicalQuery insertion_qsort False 5 ''b=2&a=1&b=1''
            \<lparr>buf = [], bufRemaining = 64, pQueryLoc = (\<lambda>i. \<lparr>key = None, val = None\<rparr>)\<rparr>))
       = ''a=1&b=1&b=2'' @ [CHR 0x0A]"
proof -
  let ?C = "\<lparr>buf = [], bufRemaining = 64, pQueryLoc = (\<lambda>i. \<lparr>key = None, val = None\<rparr>)\<rparr>"
  let ?Q = "''b=2&a=1&b=1''"
  let ?S = "[\<lparr>key = Some ''a'', val = Some ''1''\<rparr>, \<lparr>key = Some ''b'', val = Some ''1''\<rparr>,
             \<lparr>key = Some ''b'', val = Some ''2''\<rparr>]"
  have h1: "CHR 0x00 \<notin> set ?Q" by simp
  have h2: "bufRemaining ?C \<le> SIZE_MAX" by (simp add: SIZE_MAX_def)
  have srt: "insertion_qsort cmpQueryFieldValue (queryRecords 5 ?Q ?C) = ?S"
    unfolding example_records
    by (simp add: insertion_qsort_def cmpQueryFieldValue_def dataLen_def pData_def)
  have h3: "mset (insertion_qsort cmpQueryFieldValue (queryRecords 5 ?Q ?C)) = mset (queryRecords 5 ?Q ?C)"
    unfolding srt unfolding example_records by (simp add: ac_simps)
  have h4: "sorted_wrt (\<lambda>a b. cmpQueryFieldValue a b \<le> 0)
              (insertion_qsort cmpQueryFieldValue (queryRecords 5 ?Q ?C))"
    unfolding srt by (simp add: cmpQueryFieldValue_def dataLen_def pData_def)
  have ex: "fst (generateCanonicalQuery insertion_qsort False 5 ?Q ?C) = SigV4Success"
    using example_query [of insertion_qsort False "\<lambda>i. \<lparr>key = None, val = None\<rparr>"]
          h3 h4 unfolding example_records by blast
  then have h5: "generateCanonicalQuery insertion_qsort False 5 ?Q ?C =
                 (SigV4Success, snd (generateCanonicalQuery insertion_qsort False 5 ?Q ?C))"
    by (metis prod.collapse)
  note t = canonical_query_sorted [OF h1 h2 h3 h4 h5]
  have c1: "sorted_wrt (\<lambda>a b. spec_record_order a b \<le> 0) ?S"
    using t [THEN conjunct1] unfolding srt .
  have c2: "buf (snd (generateCanonicalQuery insertion_qsort False 5 ?Q ?C)) =
              canonicalQueryText False ?S @ [CHR 0x0A]"
    using t [THEN conjunct2, THEN conjunct1] unfolding srt by simp
  have qtext: "canonicalQueryText False ?S = ''a=1&b=1&b=2''"
    by code_simp
  show ?thesis
    using h1 h2 srt ex c1 c2 unfolding qtext by blast
qed

text \<open>Claim C7 as stated fails on a query with zero bytes: \<^verbatim>\<open>strncmp\<close> stops at the zero
  byte of the keys \<open>a\0c\<close> and \<open>a\0b\<close>, so the records are ordered by their values and
  \<open>a\0c=1\<close> is emitted before \<open>a\0b=2\<close>, against the byte order of the keys; with equal
  values the two different records tie.\<close>

theorem canonical_query_order_counterexample:
  "queryRecords 5 [CHR ''a'', CHR 0x00, CHR ''c'', CHR ''='', CHR ''1'', CHR ''&'',
                   CHR ''a'', CHR 0x00, CHR ''b'', CHR ''='', CHR ''2'']
      \<lparr>buf = [], bufRemaining = 64, pQueryLoc = (\<lambda>i. \<lparr>key = None, val = None\<rparr>)\<rparr>
     = [\<lparr>key = Some [CHR ''a'', CHR 0x00, CHR ''c''], val = Some ''1''\<rparr>,
        \<lparr>key = Some [CHR ''a'', CHR 0x00, CHR ''b''], val = Some ''2''\<rparr>]
   \<and> cmpQueryFieldValue \<lparr>key = Some [CHR ''a'', CHR 0x00, CHR ''c''], val = Some ''1''\<rparr>
                          \<lparr>key = Some [CHR ''a'', CHR 0x00, CHR ''b''], val = Some ''2''\<rparr> < 0
   \<and> cmpQueryFieldValue \<lparr>key = Some [CHR ''a'', CHR 0x00, CHR ''b''], val = Some ''2''\<rparr>
                          \<lparr>key = Some [CHR ''a'', CHR 0x00, CHR ''c''], val = Some ''1''\<rparr> > 0
   \<and> spec_record_order \<lparr>key = Some [CHR ''a'', CHR 0x00, CHR ''c''], val = Some ''1''\<rparr>
                         \<lparr>key = Some [CHR ''a'', CHR 0x00, CHR ''b''], val = Some ''2''\<rparr> = 1
   \<and> cmpQueryFieldValue \<lparr>key = Some [CHR ''a'', CHR 0x00, CHR ''c''], val = Some ''1''\<rparr>
                          \<lparr>key = Some [CHR ''a'', CHR 0x00, CHR ''b''], val = Some ''1''\<rparr> = 0
   \<and> buf (snd (generateCanonicalQuery insertion_qsort False 5
                  [CHR ''a'', CHR 0x00, CHR ''c'', CHR ''='', CHR ''1'', CHR ''&'',
                   CHR ''a'', CHR 0x00, CHR ''b'', CHR ''='', CHR ''2'']
                  \<lparr>buf = [], bufRemaining = 64, pQueryLoc = (\<lambda>i. \<lparr>key = None, val = None\<rparr>)\<rparr>))
     = ''a=1&a=2'' @ [CHR 0x0A]"
  by code_simp


section \<open>Theorems: sort core\<close>

lemma size_sub_0_1: "size_sub 0 (Suc 0) = SIZE_MAX"
  by (simp add: size_sub_def)

lemma size_add_max_1: "size_add SIZE_MAX (Suc 0) = 0"
  by (simp add: size_add_def)

lemma partition_loop_past_end:
  "partition_loop comparator 0 [x] i (Suc 0) = None"
  by (subst partition_loop.simps) (simp add: size_sub_0_1 SIZE_MAX_def)

lemma partition_single_item: "partition comparator [x] 0 0 = None"
proof -
  have "partition_loop comparator 0 [x] SIZE_MAX 0 = None"
    by (subst partition_loop.simps)
       (simp add: size_sub_0_1 size_add_max_1 swap_def,
        simp add: size_add_def SIZE_MAX_def partition_loop_past_end)
  then show ?thesis
    by (simp add: partition_def size_sub_0_1)
qed

text \<open>Claim C10 (the code departs from it). On an array of one item \<^verbatim>\<open>quickSort\<close> neither
  sorts nor returns in a defined way: \<^verbatim>\<open>quickSortHelper\<close> stores \<open>low\<close> and \<open>high\<close> in a
  stack of \<open>high - low + 1 = 1\<close> entry, and \<^verbatim>\<open>partition\<close>, called with \<open>low = high = 0\<close>,
  runs \<open>j\<close> up to \<open>high - 1\<close>, which wraps around to \<open>SIZE_MAX\<close>, reading behind the one
  item.\<close>

theorem quickSort_single_item_undefined:
  "quickSort comparator (Some [x]) = None
   \<and> Option.bind (push (size_add (size_sub 0 0) 1) 0 []) (push (size_add (size_sub 0 0) 1) 0) = None
   \<and> partition comparator [x] 0 0 = None"
  by (simp add: quickSort_def quickSortHelper_def size_sub_def size_add_def SIZE_MAX_def push_def
        partition_single_item)


end
